(* ===== verification/Prelude.thy ===== *)
theory Prelude
  imports Complex_Main
begin

text \<open>
  Shared vocabulary of the AMCCrop development: the types that name the
  program's data (paths, the file system, bone frames, the parsed animation
  handed over by the external AMC parser), the two control characters of the
  AMC text format, line and field splitting with its inverse laws, and the
  named theorem collections the component theories fill.
\<close>

named_theorems amc_text_simps \<open>evaluation rules of the AMC text layer\<close>
named_theorems crop_simps \<open>evaluation rules of the validator and the crop glue\<close>

section \<open>Types of the model\<close>

type_synonym path = string

text \<open>
  The file system as the program sees it: a path names a regular file
  (\<open>Some contents\<close>) or nothing.  \<open>Path.is_file\<close> is \<open>fs p \<noteq> None\<close>, and
  \<open>open(p, "w").write(s)\<close> replaces the entry of \<open>p\<close>.
\<close>

type_synonym fs = "path \<Rightarrow> string option"

text \<open>
  A frame is a Python dict from bone names to sequences of channel values;
  dicts keep insertion order, and \<open>frame.items()\<close> walks that order, so a frame
  is an association list.  The value type is a parameter: the AMC parser
  produces floats, and their text form (\<open>str\<close>) is passed to the serializer
  as a function.
\<close>

type_synonym 'v bone = "string \<times> 'v list"
type_synonym 'v frame = "'v bone list"

text \<open>
  The object exposed by the external parser as \<open>ParseAMC(...).amc\<close>: the
  frame sequence and the frame count it reports.
\<close>

record 'v amc_motion =
  amc_frames :: "'v frame list"
  amc_count :: int

section \<open>Characters and lines\<close>

abbreviation nl :: char where "nl \<equiv> CHR 0x0A"
abbreviation tab :: char where "tab \<equiv> CHR 0x09"

text \<open>\<open>''a\nb\n''\<close>: every line is terminated, the last one included.\<close>

definition unlines :: "string list \<Rightarrow> string" where
  "unlines ls = concat (map (\<lambda>l. l @ [nl]) ls)"

text \<open>Python's \<open>s.split(c)\<close>: always at least one field.\<close>

fun split_on :: "char \<Rightarrow> string \<Rightarrow> string list" where
  "split_on c [] = [[]]"
| "split_on c (x # xs) =
     (if x = c then [] # split_on c xs
      else (case split_on c xs of [] \<Rightarrow> [[x]] | f # fs \<Rightarrow> (x # f) # fs))"

text \<open>Python's \<open>c.join(fields)\<close>.\<close>

fun join_on :: "char \<Rightarrow> string list \<Rightarrow> string" where
  "join_on c [] = []"
| "join_on c [f] = f"
| "join_on c (f # fs) = f @ c # join_on c fs"

section \<open>Generic lemmas\<close>

lemma unlines_Nil [simp, amc_text_simps]: "unlines [] = []"
  by (simp add: unlines_def)

lemma unlines_Cons [simp, amc_text_simps]: "unlines (l # ls) = l @ nl # unlines ls"
  by (simp add: unlines_def)

lemma unlines_append [simp]: "unlines (xs @ ys) = unlines xs @ unlines ys"
  by (simp add: unlines_def)

lemma split_on_not_Nil [simp]: "split_on c s \<noteq> []"
  by (induction s) (auto split: list.split)

lemma split_on_append_sep:
  "c \<notin> set f \<Longrightarrow> split_on c (f @ c # s) = f # split_on c s"
  by (induction f) auto

lemma split_on_no_sep [simp]: "c \<notin> set f \<Longrightarrow> split_on c f = [f]"
  by (induction f) auto

text \<open>Splitting undoes joining when no field holds the separator.\<close>

lemma split_on_join_on:
  "fs \<noteq> [] \<Longrightarrow> \<forall>f \<in> set fs. c \<notin> set f \<Longrightarrow> split_on c (join_on c fs) = fs"
proof (induction c fs rule: join_on.induct)
  case (3 c f g gs)
  then show ?case by (simp add: split_on_append_sep)
qed simp_all

text \<open>A text of terminated lines splits back into those lines and a last, empty field.\<close>

lemma split_on_unlines:
  "\<forall>l \<in> set ls. nl \<notin> set l \<Longrightarrow> split_on nl (unlines ls) = ls @ [[]]"
  by (induction ls) (simp_all add: split_on_append_sep)

end
