(* ===== verification/PyRuntime.thy ===== *)
theory PyRuntime
  imports Prelude
begin

text \<open>
  The Python built-ins the AMCCrop code relies on, modelled from the Python
  language reference: \<open>str\<close> of an \<open>int\<close> (used for the frame counter of the
  serializer, and as the text form of integer channel values), its inverse
  \<open>int(s)\<close> on decimal strings (used only by the reader that states the
  round trip), \<open>int(s)\<close> on arbitrary strings as \<open>argparse\<close>'s \<open>type=int\<close>
  calls it, and list slicing \<open>xs[i:j]\<close> with CPython's index adjustment
  (negative indices count from the end, indices are clamped to the list).
\<close>

section \<open>\<open>str\<close> of an integer\<close>

definition digit_chars :: string where
  "digit_chars = ''0123456789''"

fun py_str_nat :: "nat \<Rightarrow> string" where
  "py_str_nat n =
     (if n < 10 then [digit_chars ! n]
      else py_str_nat (n div 10) @ [digit_chars ! (n mod 10)])"

declare py_str_nat.simps [simp del]

definition py_str_int :: "int \<Rightarrow> string" where
  "py_str_int i =
     (if i < 0 then CHR ''-'' # py_str_nat (nat (- i)) else py_str_nat (nat i))"

section \<open>\<open>int(s)\<close> on decimal strings\<close>

definition digit_value :: "char \<Rightarrow> nat option" where
  "digit_value c =
     (let k = (of_char c :: nat) in if 48 \<le> k \<and> k \<le> 57 then Some (k - 48) else None)"

fun read_digits :: "nat \<Rightarrow> string \<Rightarrow> nat option" where
  "read_digits acc [] = Some acc"
| "read_digits acc (c # cs) =
     (case digit_value c of None \<Rightarrow> None | Some d \<Rightarrow> read_digits (10 * acc + d) cs)"

definition read_nat :: "string \<Rightarrow> nat option" where
  "read_nat s = (if s = [] then None else read_digits 0 s)"

definition read_int :: "string \<Rightarrow> int option" where
  "read_int s =
     (case s of
        c # cs \<Rightarrow> if c = CHR ''-'' then map_option (\<lambda>n. - int n) (read_nat cs)
                  else map_option int (read_nat s)
      | [] \<Rightarrow> None)"

definition is_decimal :: "string \<Rightarrow> bool" where
  "is_decimal s \<longleftrightarrow> s \<noteq> [] \<and> list_all (\<lambda>c. digit_value c \<noteq> None) s"

section \<open>\<open>int(s)\<close> on arbitrary strings\<close>

text \<open>
  \<open>int(s)\<close> for a \<open>str\<close> argument, as \<open>type=int\<close> of \<open>argparse\<close> calls it
  (\<open>PyLong_FromUnicodeObject\<close>, \<open>PyLong_FromString\<close> with base 10): leading
  and trailing whitespace are skipped, then an optional sign, then decimal
  digits in which single underscores may separate digits; leading zeros
  are allowed.  Characters are read as Latin-1 code points.
  \<open>_PyUnicode_TransformDecimalAndSpaceToASCII\<close> keeps characters below 127
  and turns non-ASCII whitespace (\<open>\x85\<close>, \<open>\xa0\<close>) into a space; the
  stripping then uses \<open>Py_ISSPACE\<close>: \<open>\t \n \v \f \r\<close> and space.  So the
  ASCII separators \<open>\x1c\<close>--\<open>\x1f\<close> are not skipped, and the only decimal
  digits are ASCII's.
\<close>

definition py_isspace :: "char \<Rightarrow> bool" where
  "py_isspace c \<longleftrightarrow> of_char c \<in> {9, 10, 11, 12, 13, 32, 133, 160 :: nat}"

definition py_strip :: "string \<Rightarrow> string" where
  "py_strip s = rev (dropWhile py_isspace (rev (dropWhile py_isspace s)))"

definition read_underscored :: "string \<Rightarrow> nat option" where
  "read_underscored s =
     (let parts = split_on (CHR ''_'') s
      in if list_all is_decimal parts then read_nat (concat parts) else None)"

definition py_int :: "string \<Rightarrow> int option" where
  "py_int s =
     (case py_strip s of
        c # r \<Rightarrow>
          if c = CHR ''-'' then map_option (\<lambda>n. - int n) (read_underscored r)
          else if c = CHR ''+'' then map_option int (read_underscored r)
          else map_option int (read_underscored (c # r))
      | [] \<Rightarrow> None)"

section \<open>Slicing \<open>xs[i:j]\<close>\<close>

text \<open>
  CPython's \<open>PySlice_AdjustIndices\<close> for step 1: a negative index has the
  length added and is then clamped at 0; a non-negative one is clamped at the
  length.  The slice is empty when the adjusted stop is not after the start.
\<close>

definition py_slice_index :: "int \<Rightarrow> int \<Rightarrow> int" where
  "py_slice_index n i = (if i < 0 then max 0 (i + n) else min i n)"

definition py_slice :: "'a list \<Rightarrow> int \<Rightarrow> int \<Rightarrow> 'a list" where
  "py_slice xs i j =
     (let n = int (length xs); a = py_slice_index n i; b = py_slice_index n j
      in take (nat (b - a)) (drop (nat a) xs))"

section \<open>Lemmas\<close>

lemma less_10_cases:
  "(d::nat) < 10 \<Longrightarrow>
     d = 0 \<or> d = 1 \<or> d = 2 \<or> d = 3 \<or> d = 4 \<or> d = 5 \<or> d = 6 \<or> d = 7 \<or> d = 8 \<or> d = 9"
  by arith

lemma digit_value_digit_chars [simp]:
  "d < 10 \<Longrightarrow> digit_value (digit_chars ! d) = Some d"
  by (drule less_10_cases) (elim disjE; simp add: digit_value_def digit_chars_def)

lemma digit_chars_no_ctrl [simp]:
  "d < 10 \<Longrightarrow> digit_chars ! d \<noteq> nl" "d < 10 \<Longrightarrow> digit_chars ! d \<noteq> tab"
  "d < 10 \<Longrightarrow> digit_chars ! d \<noteq> CHR ''-''"
  by (drule less_10_cases; elim disjE; simp add: digit_chars_def)+

lemma py_str_nat_not_Nil [simp]: "py_str_nat n \<noteq> []"
  by (subst py_str_nat.simps) simp

lemma read_digits_append:
  "read_digits acc (xs @ ys) =
     (case read_digits acc xs of None \<Rightarrow> None | Some a \<Rightarrow> read_digits a ys)"
  by (induction acc xs rule: read_digits.induct) (simp_all split: option.split)

lemma read_digits_py_str_nat: "read_digits 0 (py_str_nat n) = Some n"
proof (induction n rule: py_str_nat.induct)
  case (1 n)
  show ?case
  proof (cases "n < 10")
    case True
    then show ?thesis by (simp add: py_str_nat.simps [of n])
  next
    case False
    then have "read_digits 0 (py_str_nat n)
        = read_digits (n div 10) [digit_chars ! (n mod 10)]"
      using "1.IH" by (simp add: py_str_nat.simps [of n] read_digits_append)
    also have "\<dots> = Some n" by simp
    finally show ?thesis .
  qed
qed

text \<open>\<open>int(str(n)) = n\<close> on naturals and integers.\<close>

lemma read_nat_py_str_nat [simp]: "read_nat (py_str_nat n) = Some n"
  by (simp add: read_nat_def read_digits_py_str_nat)

lemma py_str_nat_chars:
  "c \<in> set (py_str_nat n) \<Longrightarrow> \<exists>d < 10. digit_chars ! d = c"
proof (induction n rule: py_str_nat.induct)
  case (1 n)
  show ?case
  proof (cases "n < 10")
    case True
    with "1.prems" show ?thesis by (auto simp: py_str_nat.simps [of n])
  next
    case False
    with "1.prems" have "c \<in> set (py_str_nat (n div 10)) \<or> c = digit_chars ! (n mod 10)"
      by (auto simp: py_str_nat.simps [of n])
    then show ?thesis
    proof
      assume "c \<in> set (py_str_nat (n div 10))"
      with False "1.IH" show ?thesis by blast
    next
      assume "c = digit_chars ! (n mod 10)"
      then show ?thesis by (intro exI [of _ "n mod 10"]) simp
    qed
  qed
qed

lemma py_str_nat_no_ctrl [simp]:
  "nl \<notin> set (py_str_nat n)" "tab \<notin> set (py_str_nat n)"
  "CHR ''-'' \<notin> set (py_str_nat n)"
  by (auto dest!: py_str_nat_chars)

lemma is_decimal_py_str_nat [simp]: "is_decimal (py_str_nat n)"
  by (auto simp: is_decimal_def list_all_iff dest!: py_str_nat_chars)

lemma read_int_py_str_int [simp]: "read_int (py_str_int i) = Some i"
proof (cases "i < 0")
  case True
  then show ?thesis by (simp add: py_str_int_def read_int_def)
next
  case False
  obtain c cs where cs: "py_str_nat (nat i) = c # cs"
    by (cases "py_str_nat (nat i)") simp_all
  have c: "c \<noteq> CHR ''-''"
    using py_str_nat_no_ctrl(3) [of "nat i"] cs by auto
  have "read_int (py_str_int i) = map_option int (read_nat (c # cs))"
    using False c by (simp add: py_str_int_def read_int_def cs)
  also have "\<dots> = Some i"
    using False by (simp flip: cs)
  finally show ?thesis .
qed

lemma py_str_int_no_ctrl [simp]:
  "nl \<notin> set (py_str_int i)" "tab \<notin> set (py_str_int i)"
  by (simp_all add: py_str_int_def)

lemma py_slice_index_nonneg: "0 \<le> i \<Longrightarrow> py_slice_index n i = min i n"
  by (simp add: py_slice_index_def)

lemma py_slice_nonneg:
  assumes "0 \<le> i" and "0 \<le> j"
  shows "py_slice xs i j = take (min (nat j) (length xs) - nat i) (drop (nat i) xs)"
proof (cases "i \<le> int (length xs)")
  case True
  with assms have "nat (min j (int (length xs)) - min i (int (length xs)))
      = min (nat j) (length xs) - nat i"
    by linarith
  with assms True show ?thesis
    by (simp add: py_slice_def py_slice_index_nonneg)
next
  case False
  with assms show ?thesis
    by (simp add: py_slice_def py_slice_index_nonneg)
qed


text \<open>\<open>int(str(i)) = i\<close> for the argument parser's conversion as well.\<close>

lemma digit_chars_plain [simp]:
  "d < 10 \<Longrightarrow> \<not> py_isspace (digit_chars ! d)" "d < 10 \<Longrightarrow> digit_chars ! d \<noteq> CHR ''_''"
  "d < 10 \<Longrightarrow> digit_chars ! d \<noteq> CHR ''+''"
  by (drule less_10_cases; elim disjE; simp add: digit_chars_def py_isspace_def)+

lemma py_str_nat_plain [simp]:
  "CHR ''_'' \<notin> set (py_str_nat n)" "CHR ''+'' \<notin> set (py_str_nat n)"
  "c \<in> set (py_str_nat n) \<Longrightarrow> \<not> py_isspace c"
  by (auto dest!: py_str_nat_chars)

lemma py_strip_no_space: "\<forall>c \<in> set s. \<not> py_isspace c \<Longrightarrow> py_strip s = s"
proof -
  have drop: "\<forall>c \<in> set xs. \<not> py_isspace c \<Longrightarrow> dropWhile py_isspace xs = xs" for xs
    by (induction xs) simp_all
  assume "\<forall>c \<in> set s. \<not> py_isspace c"
  then show ?thesis by (simp add: py_strip_def drop)
qed

lemma read_underscored_py_str_nat [simp]: "read_underscored (py_str_nat n) = Some n"
  by (simp add: read_underscored_def)

lemma py_int_py_str_int [simp]: "py_int (py_str_int i) = Some i"
proof -
  have "\<not> py_isspace (CHR ''-'')" by (simp add: py_isspace_def)
  then have "\<forall>c \<in> set (py_str_int i). \<not> py_isspace c"
    by (simp add: py_str_int_def)
  then have strip: "py_strip (py_str_int i) = py_str_int i"
    by (rule py_strip_no_space)
  show ?thesis
  proof (cases "i < 0")
    case True
    with strip show ?thesis by (simp add: py_int_def py_str_int_def)
  next
    case False
    obtain c cs where cs: "py_str_nat (nat i) = c # cs"
      by (cases "py_str_nat (nat i)") simp_all
    have c: "c \<noteq> CHR ''-''" "c \<noteq> CHR ''+''"
      using py_str_nat_no_ctrl(3) [of "nat i"] py_str_nat_plain(2) [of "nat i"] cs by auto
    have "py_int (py_str_int i) = map_option int (read_underscored (c # cs))"
      using False c strip by (simp add: py_int_def py_str_int_def cs)
    also have "\<dots> = Some i"
      using False by (simp flip: cs)
    finally show ?thesis .
  qed
qed

end
