(* ===== verification/Validator.thy ===== *)
theory Validator
  imports PyRuntime
begin

text \<open>
  The validator \<open>CheckArgs\<close> of \<open>src/amccrop/amccrop.py\<close> (lines 7--20): the
  parsed command line, the Python exceptions the program raises, the check
  itself with its guards in the source's order, and an abstract
  specification of the validation contract (the verdict of each check of
  the spec's section 4.1, in the spec's order) that \<open>CheckArgs\<close> refines.
\<close>

section \<open>Data\<close>

text \<open>
  \<open>vars(parser.parse_args())\<close>: the five required options, the last three
  converted by \<open>type=int\<close> (Python's unbounded integers).
\<close>

record cli_args =
  arg_input :: string
  arg_output :: string
  arg_framerate :: int
  arg_start :: int
  arg_end :: int

text \<open>The exceptions raised by the program, with their messages.\<close>

datatype py_exn =
    ValueError string
  | FileExistsError string
  | FileNotFoundError string

definition msg_same_file :: string where
  "msg_same_file = ''Output filename same as input. Cannot override original file.''"

definition msg_fps :: string where
  "msg_fps = ''FPS needs to be greater than 0.''"

definition msg_start :: string where
  "msg_start = ''Start seconds out of range.''"

definition msg_end :: string where
  "msg_end = ''End seconds out of range.''"

definition msg_exists :: string where
  "msg_exists = ''Output file exists. Cannot override existing files.''"

text \<open>\<open>Path(p).is_file()\<close>.\<close>

definition py_is_file :: "fs \<Rightarrow> path \<Rightarrow> bool" where
  "py_is_file fs p \<longleftrightarrow> fs p \<noteq> None"

text \<open>
  \<open>amc.count/30\<close> is Python 3 true division of two ints, a float; the
  comparison \<open>int > float\<close> is exact.  The quotient is taken in \<open>rat\<close>: for
  frame counts below \<open>2^53\<close> the float is within half an ulp of the exact
  quotient, far closer than the \<open>1/30\<close> that separates a non-integral
  quotient from the nearest integer, so every comparison with an integer
  second agrees with the rational one.
\<close>

definition seconds_of_count :: "int \<Rightarrow> rat" where
  "seconds_of_count c = of_int c / 30"

section \<open>\<open>CheckArgs\<close>\<close>

definition CheckArgs :: "fs \<Rightarrow> cli_args \<Rightarrow> 'v amc_motion \<Rightarrow> py_exn + bool" where
  "CheckArgs fs args amc =
     (if arg_input args = arg_output args then Inl (ValueError msg_same_file)
      else
        (let filePath = arg_output args @ ''.amc'' in
         if \<not> py_is_file fs filePath then
           (if arg_framerate args \<le> 0 then Inl (ValueError msg_fps)
            else if arg_start args < 0
                    \<or> of_int (arg_start args) > seconds_of_count (amc_count amc)
              then Inl (ValueError msg_start)
            else if arg_end args \<le> arg_start args
                    \<or> of_int (arg_end args) > seconds_of_count (amc_count amc)
              then Inl (ValueError msg_end)
            else Inr True)
         else Inl (FileExistsError msg_exists)))"

section \<open>The contract of the spec\<close>

text \<open>
  Section 4.1 of the spec: five checks in order, each with its own
  rejection, approval otherwise; second bounds against \<open>totalFrames / 30\<close>.
\<close>

datatype verdict =
    Approved
  | SameFileError
  | FileExistsErr
  | InvalidRateError
  | StartRangeError
  | EndRangeError

definition validate_spec :: "bool \<Rightarrow> string \<Rightarrow> string \<Rightarrow> int \<Rightarrow> int \<Rightarrow> int \<Rightarrow> int \<Rightarrow> verdict" where
  "validate_spec out_exists inp out rate s e n =
     (if inp = out then SameFileError
      else if out_exists then FileExistsErr
      else if rate \<le> 0 then InvalidRateError
      else if \<not> (0 \<le> s \<and> 30 * s \<le> n) then StartRangeError
      else if \<not> (s < e \<and> 30 * e \<le> n) then EndRangeError
      else Approved)"

text \<open>The abstraction from the raised exception to the spec's error taxonomy.\<close>

fun verdict_of :: "py_exn + bool \<Rightarrow> verdict option" where
  "verdict_of (Inr True) = Some Approved"
| "verdict_of (Inr False) = None"
| "verdict_of (Inl (ValueError m)) =
     (if m = msg_same_file then Some SameFileError
      else if m = msg_fps then Some InvalidRateError
      else if m = msg_start then Some StartRangeError
      else if m = msg_end then Some EndRangeError
      else None)"
| "verdict_of (Inl (FileExistsError m)) =
     (if m = msg_exists then Some FileExistsErr else None)"
| "verdict_of (Inl (FileNotFoundError m)) = None"

section \<open>Lemmas\<close>

lemma seconds_of_count_less [simp]:
  "(of_int x < seconds_of_count c) \<longleftrightarrow> x * 30 < c"
proof -
  have "(of_int x < seconds_of_count c) \<longleftrightarrow> (of_int (x * 30) :: rat) < of_int c"
    by (simp add: seconds_of_count_def less_divide_eq)
  then show ?thesis by (simp only: of_int_less_iff)
qed

lemma less_seconds_of_count [simp]:
  "(seconds_of_count c < of_int x) \<longleftrightarrow> c < x * 30"
proof -
  have "(seconds_of_count c < of_int x) \<longleftrightarrow> (of_int c :: rat) < of_int (x * 30)"
    by (simp add: seconds_of_count_def divide_less_eq)
  then show ?thesis by (simp only: of_int_less_iff)
qed

lemma messages_distinct [simp]:
  "msg_same_file \<noteq> msg_fps" "msg_same_file \<noteq> msg_start" "msg_same_file \<noteq> msg_end"
  "msg_fps \<noteq> msg_start" "msg_fps \<noteq> msg_end" "msg_start \<noteq> msg_end"
  "msg_fps \<noteq> msg_same_file" "msg_start \<noteq> msg_same_file" "msg_end \<noteq> msg_same_file"
  "msg_start \<noteq> msg_fps" "msg_end \<noteq> msg_fps" "msg_end \<noteq> msg_start"
  by (simp_all add: msg_same_file_def msg_fps_def msg_start_def msg_end_def)

text \<open>Every branch of \<open>CheckArgs\<close>, as a case split the later proofs share.\<close>

lemma CheckArgs_cases [crop_simps]:
  "CheckArgs fs args amc =
     (if arg_input args = arg_output args then Inl (ValueError msg_same_file)
      else if fs (arg_output args @ ''.amc'') \<noteq> None then Inl (FileExistsError msg_exists)
      else if arg_framerate args \<le> 0 then Inl (ValueError msg_fps)
      else if arg_start args < 0 \<or> amc_count amc < arg_start args * 30
        then Inl (ValueError msg_start)
      else if arg_end args \<le> arg_start args \<or> amc_count amc < arg_end args * 30
        then Inl (ValueError msg_end)
      else Inr True)"
  by (simp add: CheckArgs_def py_is_file_def Let_def)

section \<open>Properties\<close>

text \<open>
  C2 (functional): \<open>CheckArgs\<close> approves exactly when input and output names
  differ, \<open>output.amc\<close> is not an existing file, the frame rate is positive,
  and \<open>0 \<le> start < end\<close> with both seconds at most \<open>count / 30\<close>
  (start = 0 is accepted, and the bounds use the literal 30, not the
  frame rate).
\<close>

theorem CheckArgs_approves_iff:
  "CheckArgs fs args amc = Inr True \<longleftrightarrow>
     arg_input args \<noteq> arg_output args \<and> fs (arg_output args @ ''.amc'') = None \<and>
     0 < arg_framerate args \<and> 0 \<le> arg_start args \<and> arg_start args * 30 \<le> amc_count amc \<and>
     arg_start args < arg_end args \<and> arg_end args * 30 \<le> amc_count amc"
  by (auto simp: CheckArgs_cases)

theorem CheckArgs_approves_iff_witness:
  "CheckArgs Map.empty
     \<lparr>arg_input = ''walk'', arg_output = ''clip'', arg_framerate = 30, arg_start = 0, arg_end = 30\<rparr>
     (\<lparr>amc_frames = [], amc_count = 900\<rparr> :: int amc_motion) = Inr True"
  by (simp add: CheckArgs_approves_iff)

text \<open>
  C3 (refinement): \<open>CheckArgs\<close> implements the validation contract of the
  spec: mapping its result to the spec's taxonomy (approval, same-file,
  file-exists, invalid-rate, start-range, end-range) gives the verdict of
  the spec's five checks taken in the spec's order, on every input.
\<close>

theorem CheckArgs_refines_spec:
  "verdict_of (CheckArgs fs args amc) =
     Some (validate_spec (fs (arg_output args @ ''.amc'') \<noteq> None) (arg_input args) (arg_output args)
             (arg_framerate args) (arg_start args) (arg_end args) (amc_count amc))"
  unfolding CheckArgs_cases validate_spec_def
  by (auto simp: mult.commute)

text \<open>
  C8 (error): equal input and output names are rejected with the
  same-file \<open>ValueError\<close> before any other check, whatever the other
  arguments and whether the output exists.
\<close>

theorem CheckArgs_same_file_first:
  "arg_input args = arg_output args \<Longrightarrow>
     CheckArgs fs args amc = Inl (ValueError msg_same_file)"
  by (simp add: CheckArgs_cases)

theorem CheckArgs_same_file_first_witness:
  "arg_input \<lparr>arg_input = ''walk'', arg_output = ''walk'', arg_framerate = 0, arg_start = -1, arg_end = -5\<rparr>
     = arg_output \<lparr>arg_input = ''walk'', arg_output = ''walk'', arg_framerate = 0, arg_start = -1, arg_end = -5\<rparr> \<and>
   CheckArgs [''walk.amc'' \<mapsto> ''x'']
     \<lparr>arg_input = ''walk'', arg_output = ''walk'', arg_framerate = 0, arg_start = -1, arg_end = -5\<rparr>
     (\<lparr>amc_frames = [], amc_count = 0\<rparr> :: int amc_motion) = Inl (ValueError msg_same_file)"
  using CheckArgs_same_file_first [of
      "\<lparr>arg_input = ''walk'', arg_output = ''walk'', arg_framerate = 0, arg_start = -1, arg_end = -5\<rparr>"
      "[''walk.amc'' \<mapsto> ''x'']" "\<lparr>amc_frames = [], amc_count = 0\<rparr> :: int amc_motion"]
  by simp

text \<open>
  C9 (error): with distinct names, an existing \<open>output.amc\<close> is rejected
  with \<open>FileExistsError\<close> whatever the rate and the seconds: the existence
  check precedes the value checks and the file is never overwritten.
\<close>

theorem CheckArgs_output_exists:
  "arg_input args \<noteq> arg_output args \<Longrightarrow> fs (arg_output args @ ''.amc'') \<noteq> None \<Longrightarrow>
     CheckArgs fs args amc = Inl (FileExistsError msg_exists)"
  by (simp add: CheckArgs_cases)

theorem CheckArgs_output_exists_witness:
  "arg_input \<lparr>arg_input = ''walk'', arg_output = ''run'', arg_framerate = -3, arg_start = 7, arg_end = 2\<rparr>
     \<noteq> arg_output \<lparr>arg_input = ''walk'', arg_output = ''run'', arg_framerate = -3, arg_start = 7, arg_end = 2\<rparr> \<and>
   [''run.amc'' \<mapsto> ''x''] (''run'' @ ''.amc'') \<noteq> None \<and>
   CheckArgs [''run.amc'' \<mapsto> ''x'']
     \<lparr>arg_input = ''walk'', arg_output = ''run'', arg_framerate = -3, arg_start = 7, arg_end = 2\<rparr>
     (\<lparr>amc_frames = [], amc_count = 0\<rparr> :: int amc_motion) = Inl (FileExistsError msg_exists)"
  using CheckArgs_output_exists [of
      "\<lparr>arg_input = ''walk'', arg_output = ''run'', arg_framerate = -3, arg_start = 7, arg_end = 2\<rparr>"
      "[''run.amc'' \<mapsto> ''x'']" "\<lparr>amc_frames = [], amc_count = 0\<rparr> :: int amc_motion"]
  by simp

end
