(* ===== verification/Serializer.thy ===== *)
theory Serializer
  imports PyRuntime
begin

text \<open>
  The serializer \<open>parseToAmc\<close> of \<open>src/amccrop/amccrop.py\<close> (lines 22--33).
  The source builds the document by repeated \<open>amc += ...\<close> in three nested
  loops (frames, the items of a frame, the values of a bone) with a frame
  counter starting at 1; each loop is a function with the accumulated string
  as its argument.  The value type is a parameter \<open>'v\<close> and \<open>str_v\<close> is Python's
  \<open>str\<close> on it.  A reference definition, \<open>amc_document\<close>, states the output
  line by line as the spec's section 4.2 describes it, and the accumulating
  loops are proved equal to it.
\<close>

section \<open>The loops of \<open>parseToAmc\<close>\<close>

text \<open>\<open>for float in value: amc += f"\t{str(float)}"\<close>\<close>

fun emit_values :: "('v \<Rightarrow> string) \<Rightarrow> string \<Rightarrow> 'v list \<Rightarrow> string" where
  "emit_values str_v amc [] = amc"
| "emit_values str_v amc (x # xs) = emit_values str_v (amc @ tab # str_v x) xs"

text \<open>\<open>for key, value in frame.items(): amc += f"{key}"; \<dots>; amc += "\n"\<close>\<close>

fun emit_bones :: "('v \<Rightarrow> string) \<Rightarrow> string \<Rightarrow> 'v frame \<Rightarrow> string" where
  "emit_bones str_v amc [] = amc"
| "emit_bones str_v amc ((key, value) # items) =
     emit_bones str_v (emit_values str_v (amc @ key) value @ [nl]) items"

text \<open>\<open>for frame in frames: amc += f"{frameCount}\n"; \<dots>; frameCount += 1\<close>\<close>

fun emit_frames :: "('v \<Rightarrow> string) \<Rightarrow> string \<Rightarrow> nat \<Rightarrow> 'v frame list \<Rightarrow> string" where
  "emit_frames str_v amc frameCount [] = amc"
| "emit_frames str_v amc frameCount (frame # frames) =
     emit_frames str_v (emit_bones str_v (amc @ py_str_nat frameCount @ [nl]) frame)
       (frameCount + 1) frames"

definition amc_header :: string where
  "amc_header = '':FULLY-SPECIFIED'' @ [nl] @ '':DEGREES'' @ [nl]"

definition parseToAmc :: "('v \<Rightarrow> string) \<Rightarrow> 'v frame list \<Rightarrow> string" where
  "parseToAmc str_v frames = emit_frames str_v amc_header 1 frames"

section \<open>Reference: the document line by line\<close>

definition bone_line :: "('v \<Rightarrow> string) \<Rightarrow> 'v bone \<Rightarrow> string" where
  "bone_line str_v b = fst b @ concat (map (\<lambda>v. tab # str_v v) (snd b))"

definition frame_lines :: "('v \<Rightarrow> string) \<Rightarrow> nat \<Rightarrow> 'v frame \<Rightarrow> string list" where
  "frame_lines str_v i frame = py_str_nat i # map (bone_line str_v) frame"

definition body_lines :: "('v \<Rightarrow> string) \<Rightarrow> nat \<Rightarrow> 'v frame list \<Rightarrow> string list" where
  "body_lines str_v n frames =
     concat (map (\<lambda>(i, frame). frame_lines str_v i frame) (enumerate n frames))"

definition amc_lines :: "('v \<Rightarrow> string) \<Rightarrow> 'v frame list \<Rightarrow> string list" where
  "amc_lines str_v frames = '':FULLY-SPECIFIED'' # '':DEGREES'' # body_lines str_v 1 frames"

definition amc_document :: "('v \<Rightarrow> string) \<Rightarrow> 'v frame list \<Rightarrow> string" where
  "amc_document str_v frames = unlines (amc_lines str_v frames)"

section \<open>Lemmas\<close>

lemma emit_values_eq [amc_text_simps]:
  "emit_values str_v amc vs = amc @ concat (map (\<lambda>v. tab # str_v v) vs)"
  by (induction vs arbitrary: amc) simp_all

lemma emit_bones_eq [amc_text_simps]:
  "emit_bones str_v amc fr = amc @ unlines (map (bone_line str_v) fr)"
  by (induction str_v amc fr rule: emit_bones.induct)
     (simp_all add: emit_values_eq bone_line_def)

lemma body_lines_Nil [simp]: "body_lines str_v n [] = []"
  by (simp add: body_lines_def)

lemma body_lines_Cons [simp]:
  "body_lines str_v n (frame # frames) =
     frame_lines str_v n frame @ body_lines str_v (Suc n) frames"
  by (simp add: body_lines_def)

lemma emit_frames_eq [amc_text_simps]:
  "emit_frames str_v amc n frames = amc @ unlines (body_lines str_v n frames)"
  by (induction frames arbitrary: amc n)
     (simp_all add: emit_bones_eq frame_lines_def)

lemma body_lines_append:
  "body_lines str_v n (xs @ ys) = body_lines str_v n xs @ body_lines str_v (n + length xs) ys"
  by (simp add: body_lines_def enumerate_append_eq)

lemma amc_header_lines: "amc_header = unlines ['':FULLY-SPECIFIED'', '':DEGREES'']"
  by (simp add: amc_header_def)

lemma parseToAmc_as_lines: "parseToAmc str_v frames = unlines (amc_lines str_v frames)"
  by (simp add: parseToAmc_def emit_frames_eq amc_header_lines amc_lines_def)

section \<open>Properties\<close>

text \<open>
  C4 (equivalence): the accumulating loops of \<open>parseToAmc\<close> produce exactly the
  reference document: the header lines \<open>:FULLY-SPECIFIED\<close> and \<open>:DEGREES\<close>,
  then for the \<open>k\<close>-th frame (counting from 1, whatever its position in the
  source animation) the line \<open>str(k)\<close> followed by one line per bone, the
  bone name and each value after a tab; every line ends with a newline.
\<close>

theorem parseToAmc_refines_document:
  "parseToAmc str_v frames = amc_document str_v frames"
  by (simp add: parseToAmc_def amc_document_def amc_lines_def emit_frames_eq amc_header_lines)

text \<open>
  C12 (finding): the serializer neither escapes nor checks bone names, so
  its output is ambiguous and the numeral condition of the round trip (C5)
  cannot be dropped: for every value printer and every list of frames,
  appending a frame that holds one value-less bone named like the next
  frame counter yields exactly the text of appending two empty frames.
\<close>

theorem parseToAmc_index_named_bone:
  "parseToAmc str_v (frames @ [[(py_str_nat (length frames + 2), [])]])
     = parseToAmc str_v (frames @ [[], []])"
  by (simp add: parseToAmc_as_lines amc_lines_def body_lines_append frame_lines_def bone_line_def)

end
