(* ===== verification/AmcReader.thy ===== *)
theory AmcReader
  imports Serializer
begin

text \<open>
  A reader for the text \<open>parseToAmc\<close> writes, used to state what the
  serializer preserves.  It is not part of the repository (the tool delegates
  reading AMC files to an external parser): it splits the text at newlines,
  checks the two header lines, and reads the body as blocks, each a decimal
  frame-index line followed by bone lines \<open>name\t v1\t v2 ...\<close>.  Values are
  read back by a parameter \<open>rd\<close>, the inverse of the value renderer.  The body
  is read from the last line to the first, collecting bone lines until the
  index line that owns them, so the recursion is structural.
\<close>

section \<open>Reader\<close>

definition read_bone :: "(string \<Rightarrow> 'v option) \<Rightarrow> string \<Rightarrow> 'v bone option" where
  "read_bone rd l =
     (case split_on tab l of
        [] \<Rightarrow> None
      | name # vals \<Rightarrow> map_option (Pair name) (those (map rd vals)))"

fun read_body ::
  "(string \<Rightarrow> 'v option) \<Rightarrow> string list \<Rightarrow> ('v frame \<times> (nat \<times> 'v frame) list) option"
where
  "read_body rd [] = Some ([], [])"
| "read_body rd (l # ls) =
     (case read_body rd ls of
        None \<Rightarrow> None
      | Some (pending, blocks) \<Rightarrow>
          (case read_nat l of
             Some k \<Rightarrow> Some ([], (k, pending) # blocks)
           | None \<Rightarrow>
               (case read_bone rd l of
                  None \<Rightarrow> None
                | Some b \<Rightarrow> Some (b # pending, blocks))))"

definition read_amc :: "(string \<Rightarrow> 'v option) \<Rightarrow> string \<Rightarrow> (nat \<times> 'v frame) list option" where
  "read_amc rd s =
     (case split_on nl s of
        h1 # h2 # rest \<Rightarrow>
          if h1 = '':FULLY-SPECIFIED'' \<and> h2 = '':DEGREES'' \<and> rest \<noteq> [] \<and> last rest = []
          then (case read_body rd (butlast rest) of
                  Some ([], blocks) \<Rightarrow> Some blocks
                | _ \<Rightarrow> None)
          else None
      | _ \<Rightarrow> None)"

section \<open>Well-formed frames\<close>

text \<open>
  What the round trip needs of the data: a bone name holds no tab and no
  newline and is not a decimal numeral (else its line reads as a frame
  index), and each value's text holds no tab or newline and reads back.
\<close>

definition wf_value :: "('v \<Rightarrow> string) \<Rightarrow> (string \<Rightarrow> 'v option) \<Rightarrow> 'v \<Rightarrow> bool" where
  "wf_value str_v rd v \<longleftrightarrow> rd (str_v v) = Some v \<and> tab \<notin> set (str_v v) \<and> nl \<notin> set (str_v v)"

definition wf_bone :: "('v \<Rightarrow> string) \<Rightarrow> (string \<Rightarrow> 'v option) \<Rightarrow> 'v bone \<Rightarrow> bool" where
  "wf_bone str_v rd b \<longleftrightarrow>
     read_nat (fst b) = None \<and> tab \<notin> set (fst b) \<and> nl \<notin> set (fst b)
     \<and> list_all (wf_value str_v rd) (snd b)"

definition wf_frames :: "('v \<Rightarrow> string) \<Rightarrow> (string \<Rightarrow> 'v option) \<Rightarrow> 'v frame list \<Rightarrow> bool" where
  "wf_frames str_v rd frames \<longleftrightarrow> list_all (list_all (wf_bone str_v rd)) frames"

section \<open>Lemmas\<close>

lemma join_on_Cons_concat: "join_on c (f # fs) = f @ concat (map (\<lambda>g. c # g) fs)"
  by (induction fs arbitrary: f) simp_all

lemma bone_line_join: "bone_line str_v b = join_on tab (fst b # map str_v (snd b))"
  by (simp add: bone_line_def join_on_Cons_concat comp_def)

lemma read_digits_non_digit:
  "c \<in> set s \<Longrightarrow> digit_value c = None \<Longrightarrow> read_digits acc s = None"
  by (induction acc s rule: read_digits.induct) (auto split: option.split)

lemma read_nat_tab: "tab \<in> set s \<Longrightarrow> read_nat s = None"
  by (auto simp: read_nat_def digit_value_def intro: read_digits_non_digit)

lemma those_map_wf:
  "list_all (wf_value str_v rd) vs \<Longrightarrow> those (map (rd \<circ> str_v) vs) = Some vs"
  by (induction vs) (simp_all add: wf_value_def)

lemma bone_line_no_nl: "wf_bone str_v rd b \<Longrightarrow> nl \<notin> set (bone_line str_v b)"
  by (auto simp: wf_bone_def wf_value_def bone_line_def list_all_iff)

lemma read_bone_line: "wf_bone str_v rd b \<Longrightarrow> read_bone rd (bone_line str_v b) = Some b"
proof -
  assume wf: "wf_bone str_v rd b"
  then have "split_on tab (bone_line str_v b) = fst b # map str_v (snd b)"
    by (auto simp: bone_line_join wf_bone_def wf_value_def list_all_iff
        intro!: split_on_join_on)
  with wf show ?thesis
    by (simp add: read_bone_def wf_bone_def those_map_wf)
qed

lemma read_nat_bone_line: "wf_bone str_v rd b \<Longrightarrow> read_nat (bone_line str_v b) = None"
proof (cases "snd b")
  case Nil
  then show "wf_bone str_v rd b \<Longrightarrow> ?thesis" by (simp add: wf_bone_def bone_line_def)
next
  case (Cons v vs)
  then show ?thesis by (intro read_nat_tab) (simp add: bone_line_def)
qed

lemma read_body_bones:
  "list_all (wf_bone str_v rd) fr \<Longrightarrow>
     read_body rd (map (bone_line str_v) fr @ ls) =
       map_option (\<lambda>(pending, blocks). (fr @ pending, blocks)) (read_body rd ls)"
  by (induction fr) (auto simp: read_nat_bone_line read_bone_line option.map_id split: option.split)

lemma read_body_body_lines:
  "wf_frames str_v rd frames \<Longrightarrow>
     read_body rd (body_lines str_v n frames) = Some ([], enumerate n frames)"
proof (induction frames arbitrary: n)
  case Nil
  then show ?case by simp
next
  case (Cons fr frames)
  then have wf: "list_all (wf_bone str_v rd) fr" and wfs: "wf_frames str_v rd frames"
    by (simp_all add: wf_frames_def)
  from wfs have "read_body rd (body_lines str_v (Suc n) frames) = Some ([], enumerate (Suc n) frames)"
    by (rule Cons.IH)
  with wf show ?case
    by (simp add: frame_lines_def read_body_bones enumerate_Suc_eq)
qed

lemma body_lines_no_nl:
  "wf_frames str_v rd frames \<Longrightarrow> l \<in> set (body_lines str_v n frames) \<Longrightarrow> nl \<notin> set l"
proof (induction frames arbitrary: n)
  case (Cons fr frames)
  then show ?case
    by (auto simp: frame_lines_def wf_frames_def list_all_iff dest: bone_line_no_nl)
qed simp

lemma read_amc_document:
  assumes wf: "wf_frames str_v rd frames"
  shows "read_amc rd (unlines (amc_lines str_v frames)) = Some (enumerate 1 frames)"
proof -
  have "\<forall>l \<in> set (amc_lines str_v frames). nl \<notin> set l"
    using body_lines_no_nl [OF wf] by (auto simp: amc_lines_def)
  then have "split_on nl (unlines (amc_lines str_v frames)) = amc_lines str_v frames @ [[]]"
    by (rule split_on_unlines)
  with wf show ?thesis
    by (simp add: read_amc_def amc_lines_def read_body_body_lines)
qed

section \<open>Properties\<close>

text \<open>
  C5 (roundtrip): for well-formed frames (bone names that are not numerals
  and hold no tab or newline, values whose text reads back and holds no
  tab or newline), reading the text \<open>parseToAmc\<close> writes gives back every
  frame, in order, each paired with its frame index \<open>1, 2, ...\<close>.
\<close>

theorem read_amc_parseToAmc:
  "wf_frames str_v rd frames \<Longrightarrow>
     read_amc rd (parseToAmc str_v frames) = Some (enumerate 1 frames)"
  unfolding parseToAmc_as_lines by (rule read_amc_document)

theorem read_amc_parseToAmc_witness:
  "wf_frames py_str_int read_int [[(''root'', [0, 15, -225])], [(''lfemur'', [7])]] \<and>
   read_amc read_int (parseToAmc py_str_int [[(''root'', [0, 15, -225])], [(''lfemur'', [7])]])
     = Some [(1, [(''root'', [0, 15, -225])]), (2, [(''lfemur'', [7])])]"
proof -
  have wf: "wf_frames py_str_int read_int [[(''root'', [0, 15, -225])], [(''lfemur'', [7])]]"
    by (simp add: wf_frames_def wf_bone_def wf_value_def read_nat_def digit_value_def)
  show ?thesis
    using wf read_amc_parseToAmc [OF wf] by simp
qed


end
