(* ===== verification/Crop.thy ===== *)
theory Crop
  imports Validator AmcReader
begin

text \<open>
  The crop program: \<open>SaveAmc\<close> (\<open>src/amccrop/amccrop.py\<close>, lines 35--37),
  the frame window of the glue (\<open>src/amccrop/__main__.py\<close>, lines 19--23),
  and the whole entry point \<open>__main__.py\<close> (lines 15--27) as a function of
  the parsed arguments and the file system, returning the outcome (an
  exception or normal exit) and the file system afterwards.  The external
  parser \<open>ParseAMC\<close> is a parameter: any function from the file system and
  a path to an exception or a parsed motion.  The duplicate entry point at
  the bottom of \<open>amccrop.py\<close> (lines 49--63) is modelled too and shown to
  behave the same.
\<close>

section \<open>Operations\<close>

type_synonym 'v amc_parser = "fs \<Rightarrow> path \<Rightarrow> py_exn + 'v amc_motion"

text \<open>\<open>with open(f"{filename}.amc", "w") as f: f.write(file)\<close>\<close>

definition SaveAmc :: "string \<Rightarrow> string \<Rightarrow> fs \<Rightarrow> fs" where
  "SaveAmc filename file fs = fs(filename @ ''.amc'' \<mapsto> file)"

definition crop_frames :: "cli_args \<Rightarrow> 'v amc_motion \<Rightarrow> 'v frame list" where
  "crop_frames args amc =
     (let startFrame = arg_start args * arg_framerate args;
          endFrame = arg_end args * arg_framerate args
      in py_slice (amc_frames amc) startFrame endFrame)"

definition crop_main ::
  "'v amc_parser \<Rightarrow> ('v \<Rightarrow> string) \<Rightarrow> cli_args \<Rightarrow> fs \<Rightarrow> (py_exn + unit) \<times> fs"
where
  "crop_main ParseAMC str_v args fs =
     (case ParseAMC fs (arg_input args @ ''.amc'') of
        Inl e \<Rightarrow> (Inl e, fs)
      | Inr amc \<Rightarrow>
          (case CheckArgs fs args amc of
             Inl e \<Rightarrow> (Inl e, fs)
           | Inr ok \<Rightarrow>
               if ok then
                 (let croppedFrames = crop_frames args amc;
                      amcFile = parseToAmc str_v croppedFrames
                  in (Inr (), SaveAmc (arg_output args) amcFile fs))
               else (Inr (), fs)))"

text \<open>The \<open>if __name__ == "__main__"\<close> block of \<open>amccrop.py\<close>, written out.\<close>

definition amccrop_script ::
  "'v amc_parser \<Rightarrow> ('v \<Rightarrow> string) \<Rightarrow> cli_args \<Rightarrow> fs \<Rightarrow> (py_exn + unit) \<times> fs"
where
  "amccrop_script ParseAMC str_v args fs =
     (case ParseAMC fs (arg_input args @ ''.amc'') of
        Inl e \<Rightarrow> (Inl e, fs)
      | Inr amc \<Rightarrow>
          (case CheckArgs fs args amc of
             Inl e \<Rightarrow> (Inl e, fs)
           | Inr ok \<Rightarrow>
               if ok then
                 (let startFrame = arg_start args * arg_framerate args;
                      endFrame = arg_end args * arg_framerate args;
                      croppedFrames = py_slice (amc_frames amc) startFrame endFrame;
                      amcFile = parseToAmc str_v croppedFrames
                  in (Inr (), SaveAmc (arg_output args) amcFile fs))
               else (Inr (), fs)))"

section \<open>Lemmas\<close>

lemma take_drop_map_nth:
  "take n (drop a xs) = map ((!) xs) [a..<min (a + n) (length xs)]"
proof -
  have "drop a xs = map ((!) xs) [a..<length xs]"
    by (metis drop_map drop_upt map_nth add_0 eta_contract_eq)
  then have "take n (drop a xs) = map ((!) xs) (take n [a..<length xs])"
    by (simp add: take_map)
  also have "take n [a..<length xs] = [a..<min (a + n) (length xs)]"
    by (cases "a + n \<le> length xs") (simp_all add: min_def)
  finally show ?thesis .
qed

lemma upt_min_window:
  "[a..<min (a + (min b n - a)) n] = [a..<min b n]"
  by (cases "a \<le> min b n") (simp_all add: min_def)

lemma CheckArgs_approved_bounds:
  assumes "CheckArgs fs args amc = Inr True"
  shows "arg_input args \<noteq> arg_output args" "fs (arg_output args @ ''.amc'') = None"
    "0 < arg_framerate args" "0 \<le> arg_start args" "arg_start args < arg_end args"
    "arg_start args * 30 \<le> amc_count amc" "arg_end args * 30 \<le> amc_count amc"
  using assms by (auto simp: CheckArgs_cases split: if_splits)

lemma crop_frames_window:
  assumes "0 \<le> arg_start args" "0 \<le> arg_end args" "0 < arg_framerate args"
  shows "crop_frames args amc =
     map ((!) (amc_frames amc))
       [nat (arg_start args * arg_framerate args)
          ..< min (nat (arg_end args * arg_framerate args)) (length (amc_frames amc))]"
proof -
  have "0 \<le> arg_start args * arg_framerate args" "0 \<le> arg_end args * arg_framerate args"
    using assms by simp_all
  then show ?thesis
    by (simp add: crop_frames_def py_slice_nonneg take_drop_map_nth upt_min_window)
qed

lemma crop_main_cases [crop_simps]:
  "crop_main ParseAMC str_v args fs =
     (case ParseAMC fs (arg_input args @ ''.amc'') of
        Inl e \<Rightarrow> (Inl e, fs)
      | Inr amc \<Rightarrow>
          (case CheckArgs fs args amc of
             Inl e \<Rightarrow> (Inl e, fs)
           | Inr ok \<Rightarrow>
               (Inr (), SaveAmc (arg_output args) (parseToAmc str_v (crop_frames args amc)) fs)))"
proof -
  have "CheckArgs fs args amc \<noteq> Inr False" for amc :: "'a amc_motion"
    by (simp add: CheckArgs_cases)
  then show ?thesis
    by (auto simp: crop_main_def split: sum.split)
qed

lemma CheckArgs_Inr_no_output:
  "CheckArgs fs args amc = Inr ok \<Longrightarrow> fs (arg_output args @ ''.amc'') = None"
  by (auto simp: CheckArgs_cases split: if_splits)

section \<open>Properties\<close>

text \<open>
  C1 (functional): when the parser returns a motion and \<open>CheckArgs\<close>
  approves, the program exits normally and its only effect is to write
  \<open>output.amc\<close>: the serialization of the frames whose raw index lies in
  the half-open window \<open>[start * fps, end * fps)\<close>, truncated at the
  last available frame.
\<close>

theorem crop_main_writes_window:
  "ParseAMC fs (arg_input args @ ''.amc'') = Inr amc \<Longrightarrow> CheckArgs fs args amc = Inr True \<Longrightarrow>
   crop_main ParseAMC str_v args fs =
     (Inr (), fs(arg_output args @ ''.amc'' \<mapsto>
        amc_document str_v
          (map ((!) (amc_frames amc))
            [nat (arg_start args * arg_framerate args)
               ..< min (nat (arg_end args * arg_framerate args)) (length (amc_frames amc))])))"
proof -
  assume parsed: "ParseAMC fs (arg_input args @ ''.amc'') = Inr amc"
    and ok: "CheckArgs fs args amc = Inr True"
  from ok have "0 \<le> arg_start args" "0 \<le> arg_end args" "0 < arg_framerate args"
    using CheckArgs_approved_bounds [OF ok] by simp_all
  then have "crop_frames args amc =
     map ((!) (amc_frames amc))
       [nat (arg_start args * arg_framerate args)
          ..< min (nat (arg_end args * arg_framerate args)) (length (amc_frames amc))]"
    by (rule crop_frames_window)
  with parsed ok show ?thesis
    by (simp add: crop_main_cases SaveAmc_def parseToAmc_as_lines amc_document_def)
qed

theorem crop_main_writes_window_witness:
  "(\<lambda>_ _. Inr \<lparr>amc_frames = [[(''root'', [0])], [(''root'', [1])], [(''root'', [2])]], amc_count = 60\<rparr>)
     [''walk.amc'' \<mapsto> ''raw''] (''walk'' @ ''.amc'')
     = (Inr \<lparr>amc_frames = [[(''root'', [0])], [(''root'', [1])], [(''root'', [2])]], amc_count = 60\<rparr>
         :: py_exn + int amc_motion) \<and>
   CheckArgs [''walk.amc'' \<mapsto> ''raw'']
     \<lparr>arg_input = ''walk'', arg_output = ''clip'', arg_framerate = 2, arg_start = 0, arg_end = 1\<rparr>
     \<lparr>amc_frames = [[(''root'', [0::int])], [(''root'', [1])], [(''root'', [2])]], amc_count = 60\<rparr>
     = Inr True \<and>
   crop_main (\<lambda>_ _. Inr \<lparr>amc_frames = [[(''root'', [0])], [(''root'', [1])], [(''root'', [2])]], amc_count = 60\<rparr>)
     py_str_int \<lparr>arg_input = ''walk'', arg_output = ''clip'', arg_framerate = 2, arg_start = 0, arg_end = 1\<rparr>
     [''walk.amc'' \<mapsto> ''raw'']
   = (Inr (), [''walk.amc'' \<mapsto> ''raw'', ''clip.amc'' \<mapsto>
        amc_document py_str_int [[(''root'', [0])], [(''root'', [1])]]])"
proof -
  let ?amc = "\<lparr>amc_frames = [[(''root'', [0::int])], [(''root'', [1])], [(''root'', [2])]], amc_count = 60\<rparr>"
  let ?args = "\<lparr>arg_input = ''walk'', arg_output = ''clip'', arg_framerate = 2, arg_start = 0, arg_end = 1\<rparr>"
  have h1: "(\<lambda>_ _. Inr ?amc) [''walk.amc'' \<mapsto> ''raw''] (arg_input ?args @ ''.amc'')
      = (Inr ?amc :: py_exn + int amc_motion)"
    by simp
  have h2: "CheckArgs [''walk.amc'' \<mapsto> ''raw''] ?args ?amc = Inr True"
    by (simp add: CheckArgs_cases)
  show ?thesis
    using h2 crop_main_writes_window [OF h1 h2, of py_str_int]
    by (simp add: upt_rec)
qed

text \<open>
  C6 (safety): the program never changes an existing file: whatever the
  parser returns and whatever the arguments, every path that named a file
  before the run names the same contents after it (the input included).
\<close>

theorem crop_main_no_overwrite:
  "fs p \<noteq> None \<Longrightarrow> snd (crop_main ParseAMC str_v args fs) p = fs p"
  by (auto simp: crop_main_cases SaveAmc_def dest: CheckArgs_Inr_no_output
      split: sum.split)

theorem crop_main_no_overwrite_witness:
  "[''walk.amc'' \<mapsto> ''raw''] ''walk.amc'' \<noteq> None \<and>
   snd (crop_main (\<lambda>_ _. Inr (\<lparr>amc_frames = [[(''root'', [0::int])]], amc_count = 30\<rparr>)) py_str_int
          \<lparr>arg_input = ''walk'', arg_output = ''clip'', arg_framerate = 1, arg_start = 0, arg_end = 1\<rparr>
          [''walk.amc'' \<mapsto> ''raw'']) ''walk.amc''
     = Some ''raw''"
  using crop_main_no_overwrite [of "[''walk.amc'' \<mapsto> ''raw'']" "''walk.amc''"
      "\<lambda>_ _. Inr (\<lparr>amc_frames = [[(''root'', [0::int])]], amc_count = 30\<rparr>)" py_str_int
      "\<lparr>arg_input = ''walk'', arg_output = ''clip'', arg_framerate = 1, arg_start = 0, arg_end = 1\<rparr>"]
  by simp

text \<open>
  C7 (error): a run that ends in an exception (from the parser or from
  \<open>CheckArgs\<close>) leaves the file system as it was: no partial output,
  since validation fully precedes the write.
\<close>

theorem crop_main_error_no_output:
  "isl (fst (crop_main ParseAMC str_v args fs)) \<Longrightarrow> snd (crop_main ParseAMC str_v args fs) = fs"
  by (auto simp: crop_main_cases split: sum.splits)

theorem crop_main_error_no_output_witness:
  "isl (fst (crop_main (\<lambda>_ _. Inr (\<lparr>amc_frames = [], amc_count = 0\<rparr> :: int amc_motion)) py_str_int
          \<lparr>arg_input = ''walk'', arg_output = ''clip'', arg_framerate = 0, arg_start = 0, arg_end = 1\<rparr>
          Map.empty)) \<and>
   snd (crop_main (\<lambda>_ _. Inr (\<lparr>amc_frames = [], amc_count = 0\<rparr> :: int amc_motion)) py_str_int
          \<lparr>arg_input = ''walk'', arg_output = ''clip'', arg_framerate = 0, arg_start = 0, arg_end = 1\<rparr>
          Map.empty) = Map.empty"
proof -
  have h: "isl (fst (crop_main (\<lambda>_ _. Inr (\<lparr>amc_frames = [], amc_count = 0\<rparr> :: int amc_motion))
      py_str_int \<lparr>arg_input = ''walk'', arg_output = ''clip'', arg_framerate = 0, arg_start = 0,
      arg_end = 1\<rparr> Map.empty))"
    by (simp add: crop_main_cases CheckArgs_cases)
  show ?thesis using h crop_main_error_no_output [OF h] by simp
qed

text \<open>
  C10 (bounds): when the frame rate is at most the nominal 30 and the count
  the parser reports is the number of frames, an approved request yields
  exactly \<open>(end - start) * fps\<close> frames: the window never runs past the
  animation and is never truncated.
\<close>

theorem crop_frames_length:
  "CheckArgs fs args amc = Inr True \<Longrightarrow> arg_framerate args \<le> 30 \<Longrightarrow>
   amc_count amc = int (length (amc_frames amc)) \<Longrightarrow>
   length (crop_frames args amc) = nat ((arg_end args - arg_start args) * arg_framerate args)"
proof -
  assume ok: "CheckArgs fs args amc = Inr True" and rate: "arg_framerate args \<le> 30"
    and cnt: "amc_count amc = int (length (amc_frames amc))"
  note b = CheckArgs_approved_bounds [OF ok]
  have "arg_end args * arg_framerate args \<le> arg_end args * 30"
    using b rate by (simp add: mult_left_mono)
  with b cnt have le: "nat (arg_end args * arg_framerate args) \<le> length (amc_frames amc)"
    by linarith
  have lt: "arg_start args * arg_framerate args \<le> arg_end args * arg_framerate args"
    using b by (simp add: mult_right_mono)
  have "crop_frames args amc =
     map ((!) (amc_frames amc))
       [nat (arg_start args * arg_framerate args)
          ..< min (nat (arg_end args * arg_framerate args)) (length (amc_frames amc))]"
    using b by (intro crop_frames_window) simp_all
  with le lt b show ?thesis
    by (simp add: left_diff_distrib nat_diff_distrib)
qed

theorem crop_frames_length_witness:
  "CheckArgs Map.empty
     \<lparr>arg_input = ''walk'', arg_output = ''clip'', arg_framerate = 30, arg_start = 5, arg_end = 20\<rparr>
     \<lparr>amc_frames = replicate 900 [(''root'', [0::int])], amc_count = 900\<rparr> = Inr True \<and>
   arg_framerate \<lparr>arg_input = ''walk'', arg_output = ''clip'', arg_framerate = 30, arg_start = 5, arg_end = 20\<rparr>
     \<le> 30 \<and>
   amc_count \<lparr>amc_frames = replicate 900 [(''root'', [0::int])], amc_count = 900\<rparr>
     = int (length (amc_frames \<lparr>amc_frames = replicate 900 [(''root'', [0::int])], amc_count = 900\<rparr>)) \<and>
   length (crop_frames
     \<lparr>arg_input = ''walk'', arg_output = ''clip'', arg_framerate = 30, arg_start = 5, arg_end = 20\<rparr>
     \<lparr>amc_frames = replicate 900 [(''root'', [0::int])], amc_count = 900\<rparr>) = 450"
proof -
  let ?args = "\<lparr>arg_input = ''walk'', arg_output = ''clip'', arg_framerate = 30, arg_start = 5, arg_end = 20\<rparr>"
  let ?amc = "\<lparr>amc_frames = replicate 900 [(''root'', [0::int])], amc_count = 900\<rparr>"
  have h1: "CheckArgs Map.empty ?args ?amc = Inr True" by (simp add: CheckArgs_cases)
  have h2: "arg_framerate ?args \<le> 30" by simp
  have h3: "amc_count ?amc = int (length (amc_frames ?amc))" by simp
  show ?thesis using h1 h2 h3 crop_frames_length [OF h1 h2 h3] by simp
qed

text \<open>
  C13 (equivalence): the duplicate entry point at the bottom of
  \<open>amccrop.py\<close> behaves exactly like the package entry point
  \<open>__main__.py\<close>, so every property of \<open>crop_main\<close> holds for both.
\<close>

theorem amccrop_script_eq_crop_main: "amccrop_script = crop_main"
  by (intro ext) (simp add: amccrop_script_def crop_main_def crop_frames_def Let_def split: sum.split)

end
