(* ===== verification/Args.thy ===== *)
theory Args
  imports Crop
begin

text \<open>
  The command line of both entry points (\<open>src/amccrop/__main__.py\<close> lines
  5--13, \<open>src/amccrop/amccrop.py\<close> lines 41--49): an
  \<open>argparse.ArgumentParser\<close> with the implicit \<open>-h/--help\<close> and five
  required options storing one string each, the last three converted by
  \<open>int\<close>, and \<open>vars(parser.parse_args())\<close>.  The library's parse is modelled
  as Python 3.7's \<open>argparse\<close> runs it on this parser, in its two passes:
  \<^item> \<open>_parse_optional\<close> classifies each string before a \<open>--\<close>: an exact option
    string, \<open>opt=value\<close>, a unique prefix (\<open>--inp\<close>, or \<open>-s5\<close> for a
    one-character option with its value attached), a negative number or a
    string with a space (a plain argument), or an unknown option; several
    prefix matches abort with \<open>ambiguous option\<close>;
  \<^item> \<open>consume_optional\<close> then walks the classified strings: an option takes
    its attached value or the next plain argument (\<open>expected one
    argument\<close> otherwise), \<open>type=int\<close> converts it (\<open>invalid int value\<close>),
    help exits at once, the last occurrence of an option wins, and every
    other string is collected as unrecognized;
  \<^item> finally the required options that were never seen are reported, and
    only then the unrecognized strings.
  The outcome is the argument record, or the way the parse stops:
  \<open>HelpShown\<close> (\<open>SystemExit(0)\<close> after printing help), \<open>UsageError\<close>
  (\<open>SystemExit(2)\<close> after printing usage and the message), or
  \<open>ListValued\<close>: for an attached value \<open>--\<close> (\<open>--input=--\<close>) Python 3.7's
  \<open>_get_values\<close> removes the \<open>--\<close> and stores the empty list \<open>[]\<close> instead
  of a string; the program then runs on with a list where the record
  holds a string or an int, which the model does not follow.  One input
  crashes the library itself: \<open>-h=\<close> gives help the empty attached value
  \<open>''\<close>, and the one-character flag loop of \<open>consume_optional\<close> reads
  \<open>explicit_arg[0]\<close>, an uncaught \<open>IndexError\<close> (\<open>StringIndexError\<close>).
\<close>

section \<open>Data\<close>

datatype arg_opt = OHelp | OInput | OOutput | OFramerate | OStart | OEnd

text \<open>\<open>parser._option_string_actions\<close>, in insertion order.\<close>

definition option_strings :: "(string \<times> arg_opt) list" where
  "option_strings =
     [(''-h'', OHelp), (''--help'', OHelp),
      (''-i'', OInput), (''--input'', OInput),
      (''-o'', OOutput), (''--output'', OOutput),
      (''-fps'', OFramerate), (''--framerate'', OFramerate),
      (''-s'', OStart), (''--start'', OStart),
      (''-e'', OEnd), (''--end'', OEnd)]"

datatype argparse_error =
    Ambiguous string "string list"
  | ExpectedOne arg_opt
  | InvalidInt arg_opt string
  | IgnoredExplicit string
  | Required "arg_opt list"
  | Unrecognized "string list"

datatype argparse_stop = HelpShown | UsageError argparse_error | ListValued arg_opt | StringIndexError

text \<open>
  The pattern letter of each string: \<open>A\<close> (\<open>TArg\<close>), \<open>-\<close> (\<open>TMarker\<close>, the
  first \<open>--\<close>), or \<open>O\<close>: a known option with the option string matched and
  the attached value, or an unknown one (\<open>TUnknown\<close>).
\<close>

datatype arg_tok = TArg | TMarker | TUnknown | TOpt string arg_opt "string option"

text \<open>The namespace: one slot per required option, and the unrecognized strings.\<close>

record parsed =
  p_input :: "string option"
  p_output :: "string option"
  p_framerate :: "int option"
  p_start :: "int option"
  p_end :: "int option"
  p_extras :: "string list"

section \<open>Classification: \<open>_parse_optional\<close>\<close>

definition starts_with :: "string \<Rightarrow> string \<Rightarrow> bool" where
  "starts_with s p \<longleftrightarrow> take (length p) s = p"

text \<open>\<open>s.split('=', 1)\<close> when \<open>s\<close> holds a \<open>=\<close>.\<close>

definition split_eq :: "string \<Rightarrow> string \<times> string" where
  "split_eq s = (takeWhile (\<lambda>c. c \<noteq> CHR ''='') s, drop 1 (dropWhile (\<lambda>c. c \<noteq> CHR ''='') s))"

definition all_digits :: "string \<Rightarrow> bool" where
  "all_digits s \<longleftrightarrow> list_all (\<lambda>c. digit_value c \<noteq> None) s"

text \<open>
  \<open>_negative_number_matcher\<close>, the regular expression
  \<open>^-\d+$|^-\d*\.\d+$\<close> under \<open>re.match\<close>, where \<open>$\<close> also matches before a
  final newline.
\<close>

definition neg_number_body :: "string \<Rightarrow> bool" where
  "neg_number_body r \<longleftrightarrow>
     (r \<noteq> [] \<and> all_digits r) \<or>
     (CHR ''.'' \<in> set r \<and> all_digits (takeWhile (\<lambda>c. c \<noteq> CHR ''.'') r) \<and>
      drop 1 (dropWhile (\<lambda>c. c \<noteq> CHR ''.'') r) \<noteq> [] \<and>
      all_digits (drop 1 (dropWhile (\<lambda>c. c \<noteq> CHR ''.'') r)))"

definition neg_number :: "string \<Rightarrow> bool" where
  "neg_number s \<longleftrightarrow>
     (case s of
        c # r \<Rightarrow> c = CHR ''-'' \<and>
          (neg_number_body r \<or> (r \<noteq> [] \<and> last r = nl \<and> neg_number_body (butlast r)))
      | [] \<Rightarrow> False)"

text \<open>\<open>_get_option_tuples\<close>: the prefix matches of an option-like string.\<close>

definition option_tuples :: "string \<Rightarrow> (string \<times> arg_opt \<times> string option) list" where
  "option_tuples s =
     (if s ! 1 = CHR ''-'' then
        (let pre = (if CHR ''='' \<in> set s then fst (split_eq s) else s);
             ea = (if CHR ''='' \<in> set s then Some (snd (split_eq s)) else None)
         in map (\<lambda>(os, a). (os, a, ea)) (filter (\<lambda>(os, a). starts_with os pre) option_strings))
      else
        map (\<lambda>(os, a). (os, a, if os = take 2 s then Some (drop 2 s) else None))
          (filter (\<lambda>(os, a). os = take 2 s \<or> starts_with os s) option_strings))"

definition parse_optional :: "string \<Rightarrow> argparse_stop + arg_tok" where
  "parse_optional s =
     (if s = [] \<or> hd s \<noteq> CHR ''-'' then Inr TArg
      else case map_of option_strings s of
        Some a \<Rightarrow> Inr (TOpt s a None)
      | None \<Rightarrow>
          (if length s = 1 then Inr TArg
           else case (if CHR ''='' \<in> set s
                     then map_option (\<lambda>a. TOpt (fst (split_eq s)) a (Some (snd (split_eq s))))
                            (map_of option_strings (fst (split_eq s)))
                     else None) of
            Some t \<Rightarrow> Inr t
          | None \<Rightarrow>
              (let ts = option_tuples s in
               if ts = [] then Inr (if neg_number s \<or> CHR '' '' \<in> set s then TArg else TUnknown)
               else if length ts = 1 then (case hd ts of (os, a, ea) \<Rightarrow> Inr (TOpt os a ea))
               else Inl (UsageError (Ambiguous s (map fst ts))))))"

text \<open>The first pass of \<open>_parse_known_args\<close>: everything after \<open>--\<close> is an argument.\<close>

fun classify_args :: "string list \<Rightarrow> argparse_stop + (string \<times> arg_tok) list" where
  "classify_args [] = Inr []"
| "classify_args (s # ss) =
     (if s = ''--'' then Inr ((s, TMarker) # map (\<lambda>x. (x, TArg)) ss)
      else case parse_optional s of
        Inl e \<Rightarrow> Inl e
      | Inr t \<Rightarrow> (case classify_args ss of Inl e \<Rightarrow> Inl e | Inr ts \<Rightarrow> Inr ((s, t) # ts)))"

section \<open>Consumption: \<open>consume_optional\<close> and \<open>take_action\<close>\<close>

definition empty_parsed :: parsed where
  "empty_parsed = \<lparr>p_input = None, p_output = None, p_framerate = None, p_start = None,
     p_end = None, p_extras = []\<rparr>"

definition add_extra :: "string \<Rightarrow> parsed \<Rightarrow> parsed" where
  "add_extra s st = st\<lparr>p_extras := p_extras st @ [s]\<rparr>"

text \<open>\<open>_get_value\<close> with \<open>type=int\<close>.\<close>

definition int_value :: "arg_opt \<Rightarrow> string \<Rightarrow> argparse_stop + int" where
  "int_value a v = (case py_int v of None \<Rightarrow> Inl (UsageError (InvalidInt a v)) | Some n \<Rightarrow> Inr n)"

text \<open>The store action (\<open>setattr(namespace, dest, value)\<close>), and help.\<close>

fun store_value :: "arg_opt \<Rightarrow> string \<Rightarrow> parsed \<Rightarrow> argparse_stop + parsed" where
  "store_value OHelp v st = Inl HelpShown"
| "store_value OInput v st = Inr (st\<lparr>p_input := Some v\<rparr>)"
| "store_value OOutput v st = Inr (st\<lparr>p_output := Some v\<rparr>)"
| "store_value OFramerate v st = map_sum id (\<lambda>n. st\<lparr>p_framerate := Some n\<rparr>) (int_value OFramerate v)"
| "store_value OStart v st = map_sum id (\<lambda>n. st\<lparr>p_start := Some n\<rparr>) (int_value OStart v)"
| "store_value OEnd v st = map_sum id (\<lambda>n. st\<lparr>p_end := Some n\<rparr>) (int_value OEnd v)"

text \<open>\<open>take_action\<close> on one value string; \<open>_get_values\<close> first removes a \<open>--\<close>.\<close>

definition take_action :: "arg_opt \<Rightarrow> string \<Rightarrow> parsed \<Rightarrow> argparse_stop + parsed" where
  "take_action a v st = (if v = ''--'' then Inl (ListValued a) else store_value a v st)"

text \<open>
  The loop of \<open>consume_optional\<close> on \<open>-h\<close> with characters attached
  (\<open>-hi\<close>): each further character names a one-character option; a help
  flag continues the loop, a value option ends it (taking the rest as its
  value, or the next argument when nothing is left, \<open>Some a\<close>), anything
  else is \<open>ignored explicit argument\<close>.
\<close>

fun help_cluster :: "string \<Rightarrow> argparse_stop + arg_opt option" where
  "help_cluster [] = Inr None"
| "help_cluster (c # e) =
     (case map_of option_strings [CHR ''-'', c] of
        None \<Rightarrow> Inl (UsageError (IgnoredExplicit (c # e)))
      | Some OHelp \<Rightarrow> help_cluster e
      | Some a \<Rightarrow> Inr (if e = [] then Some a else None))"

function consume :: "(string \<times> arg_tok) list \<Rightarrow> parsed \<Rightarrow> argparse_stop + parsed" where
  "consume [] st = Inr st"
| "consume ((s, TArg) # ts) st = consume ts (add_extra s st)"
| "consume ((s, TMarker) # ts) st = consume ts (add_extra s st)"
| "consume ((s, TUnknown) # ts) st = consume ts (add_extra s st)"
| "consume ((s, TOpt os a (Some v)) # ts) st =
     (if a = OHelp then
        (if os ! 1 = CHR ''-'' then Inl (UsageError (IgnoredExplicit v))
         else if v = [] then Inl StringIndexError
         else case help_cluster v of
           Inl e \<Rightarrow> Inl e
         | Inr None \<Rightarrow> Inl HelpShown
         | Inr (Some b) \<Rightarrow>
             (case ts of (_, TArg) # _ \<Rightarrow> Inl HelpShown | _ \<Rightarrow> Inl (UsageError (ExpectedOne b))))
      else case take_action a v st of Inl e \<Rightarrow> Inl e | Inr st' \<Rightarrow> consume ts st')"
| "consume ((s, TOpt os a None) # ts) st =
     (if a = OHelp then Inl HelpShown
      else case ts of
        (v, TArg) # ts' \<Rightarrow> (case take_action a v st of Inl e \<Rightarrow> Inl e | Inr st' \<Rightarrow> consume ts' st')
      | _ \<Rightarrow> Inl (UsageError (ExpectedOne a)))"
  by pat_completeness auto
termination by (relation "measure (\<lambda>(ts, st). length ts)") auto

section \<open>\<open>parse_args\<close> and the entry points\<close>

fun opt_seen :: "parsed \<Rightarrow> arg_opt \<Rightarrow> bool" where
  "opt_seen st OHelp \<longleftrightarrow> True"
| "opt_seen st OInput \<longleftrightarrow> p_input st \<noteq> None"
| "opt_seen st OOutput \<longleftrightarrow> p_output st \<noteq> None"
| "opt_seen st OFramerate \<longleftrightarrow> p_framerate st \<noteq> None"
| "opt_seen st OStart \<longleftrightarrow> p_start st \<noteq> None"
| "opt_seen st OEnd \<longleftrightarrow> p_end st \<noteq> None"

definition parse_args :: "string list \<Rightarrow> argparse_stop + cli_args" where
  "parse_args argv =
     (case classify_args argv of
        Inl e \<Rightarrow> Inl e
      | Inr ts \<Rightarrow>
          (case consume ts empty_parsed of
             Inl e \<Rightarrow> Inl e
           | Inr st \<Rightarrow>
               (case (p_input st, p_output st, p_framerate st, p_start st, p_end st) of
                  (Some inp, Some out, Some fps, Some s, Some e) \<Rightarrow>
                    if p_extras st = [] then
                      Inr \<lparr>arg_input = inp, arg_output = out, arg_framerate = fps, arg_start = s, arg_end = e\<rparr>
                    else Inl (UsageError (Unrecognized (p_extras st)))
                | _ \<Rightarrow> Inl (UsageError (Required
                         (filter (\<lambda>a. \<not> opt_seen st a) [OInput, OOutput, OFramerate, OStart, OEnd]))))))"

text \<open>\<open>python -m amccrop\<close>: the module \<open>__main__.py\<close> run on \<open>sys.argv[1:]\<close>.\<close>

definition main_module ::
  "'v amc_parser \<Rightarrow> ('v \<Rightarrow> string) \<Rightarrow> string list \<Rightarrow> fs \<Rightarrow> (argparse_stop + py_exn + unit) \<times> fs"
where
  "main_module ParseAMC str_v argv fs =
     (case parse_args argv of
        Inl stop \<Rightarrow> (Inl stop, fs)
      | Inr args \<Rightarrow> map_prod Inr id (crop_main ParseAMC str_v args fs))"

text \<open>\<open>python amccrop.py\<close>: the \<open>if __name__ == "__main__"\<close> block.\<close>

definition amccrop_cli ::
  "'v amc_parser \<Rightarrow> ('v \<Rightarrow> string) \<Rightarrow> string list \<Rightarrow> fs \<Rightarrow> (argparse_stop + py_exn + unit) \<times> fs"
where
  "amccrop_cli ParseAMC str_v argv fs =
     (case parse_args argv of
        Inl stop \<Rightarrow> (Inl stop, fs)
      | Inr args \<Rightarrow> map_prod Inr id (amccrop_script ParseAMC str_v args fs))"

text \<open>The command line of spec section 6 for an argument record.\<close>

definition render_argv :: "cli_args \<Rightarrow> string list" where
  "render_argv a =
     [''-i'', arg_input a, ''-o'', arg_output a, ''-fps'', py_str_int (arg_framerate a),
      ''-s'', py_str_int (arg_start a), ''-e'', py_str_int (arg_end a)]"


text \<open>A value string that \<open>argparse\<close> reads as a plain argument: empty, or not starting with \<open>-\<close>.\<close>

definition plain_value :: "string \<Rightarrow> bool" where
  "plain_value v \<longleftrightarrow> v = [] \<or> hd v \<noteq> CHR ''-''"

section \<open>Lemmas\<close>

lemma option_strings_shape:
  "(os, a) \<in> set option_strings \<Longrightarrow>
     2 \<le> length os \<and> hd os = CHR ''-'' \<and> digit_value (os ! 1) = None"
  by (auto simp: option_strings_def digit_value_def)

lemma parse_optional_option [simp]:
  "map_of option_strings s = Some a \<Longrightarrow> parse_optional s = Inr (TOpt s a None)"
proof -
  assume m: "map_of option_strings s = Some a"
  then have "2 \<le> length s \<and> hd s = CHR ''-''"
    using option_strings_shape [OF map_of_SomeD [OF m]] by simp
  with m show ?thesis by (auto simp: parse_optional_def)
qed

lemma parse_optional_plain [simp]: "plain_value v \<Longrightarrow> parse_optional v = Inr TArg"
  by (auto simp: parse_optional_def plain_value_def)

lemma all_digits_py_str_nat [simp]: "all_digits (py_str_nat n)"
  using is_decimal_py_str_nat [of n] by (simp add: is_decimal_def all_digits_def)

text \<open>A negative number is a plain argument: it matches no option string or prefix.\<close>

lemma parse_optional_negative:
  assumes c: "digit_value c \<noteq> None" and r: "all_digits r"
  shows "parse_optional (CHR ''-'' # c # r) = Inr TArg"
proof -
  let ?s = "CHR ''-'' # c # r"
  have nd: "(os, a) \<in> set option_strings \<Longrightarrow> os ! 1 \<noteq> c" for os a
    using option_strings_shape c by force
  have "map_of option_strings ?s = None"
    using nd by (force simp: map_of_eq_None_iff)
  moreover have "CHR ''='' \<notin> set ?s" "CHR '' '' \<notin> set ?s"
    using c r by (auto simp: all_digits_def list_all_iff digit_value_def)
  moreover have "c \<noteq> CHR ''-''" using c by (auto simp: digit_value_def)
  moreover have "\<not> starts_with os ?s" "os \<noteq> take 2 ?s" if "(os, a) \<in> set option_strings" for os a
  proof -
    have "take (length ?s) os = ?s \<Longrightarrow> os ! 1 = c"
      by (metis Suc_1 lessI nth_Cons_0 nth_Cons_Suc nth_take length_Cons One_nat_def
          Suc_less_eq length_take min_less_iff_conj zero_less_Suc)
    then show "\<not> starts_with os ?s" using nd that by (auto simp: starts_with_def)
    show "os \<noteq> take 2 ?s" using nd [OF that] by auto
  qed
  then have "option_tuples ?s = []"
    using \<open>c \<noteq> CHR ''-''\<close> by (force simp: option_tuples_def filter_empty_conv)
  moreover have "neg_number ?s"
    using r c by (simp add: neg_number_def neg_number_body_def all_digits_def)
  ultimately show ?thesis by (simp add: parse_optional_def)
qed

lemma parse_optional_py_str_int [simp]: "parse_optional (py_str_int i) = Inr TArg"
proof -
  obtain c r where cr: "py_str_nat (nat \<bar>i\<bar>) = c # r"
    by (cases "py_str_nat (nat \<bar>i\<bar>)") simp_all
  then have "digit_value c \<noteq> None" "all_digits r"
    using all_digits_py_str_nat [of "nat \<bar>i\<bar>"] by (simp_all add: all_digits_def)
  moreover have "c \<noteq> CHR ''-''"
    using py_str_nat_no_ctrl(3) [of "nat \<bar>i\<bar>"] cr by auto
  ultimately have "digit_value c \<noteq> None" "all_digits r" "c \<noteq> CHR ''-''" by simp_all
  with cr show ?thesis
    by (cases "i < 0")
       (simp_all add: py_str_int_def parse_optional_negative plain_value_def)
qed

lemma not_marker [simp]:
  "parse_optional v = Inr TArg \<Longrightarrow> v \<noteq> ''--''"
  by (auto simp: parse_optional_def option_tuples_def option_strings_def starts_with_def)


lemma cli_args_eta [simp]:
  "\<lparr>arg_input = arg_input a, arg_output = arg_output a, arg_framerate = arg_framerate a,
     arg_start = arg_start a, arg_end = arg_end a\<rparr> = a"
  by simp

lemma option_string_not_marker [simp]: "map_of option_strings f = Some a \<Longrightarrow> f \<noteq> ''--''"
  by (auto simp: option_strings_def)

text \<open>The rendered command line classifies flag by flag, and each flag stores its value.\<close>

lemma classify_render:
  "plain_value (arg_input a) \<Longrightarrow> plain_value (arg_output a) \<Longrightarrow>
   classify_args (render_argv a @ rest) =
     map_sum id (\<lambda>ts. [(''-i'', TOpt ''-i'' OInput None), (arg_input a, TArg),
        (''-o'', TOpt ''-o'' OOutput None), (arg_output a, TArg),
        (''-fps'', TOpt ''-fps'' OFramerate None), (py_str_int (arg_framerate a), TArg),
        (''-s'', TOpt ''-s'' OStart None), (py_str_int (arg_start a), TArg),
        (''-e'', TOpt ''-e'' OEnd None), (py_str_int (arg_end a), TArg)] @ ts) (classify_args rest)"
  by (simp add: render_argv_def option_strings_def split: sum.split)

lemma consume_render:
  "plain_value (arg_input a) \<Longrightarrow> plain_value (arg_output a) \<Longrightarrow>
   consume ([(''-i'', TOpt ''-i'' OInput None), (arg_input a, TArg),
        (''-o'', TOpt ''-o'' OOutput None), (arg_output a, TArg),
        (''-fps'', TOpt ''-fps'' OFramerate None), (py_str_int (arg_framerate a), TArg),
        (''-s'', TOpt ''-s'' OStart None), (py_str_int (arg_start a), TArg),
        (''-e'', TOpt ''-e'' OEnd None), (py_str_int (arg_end a), TArg)] @ ts) st =
   consume ts (st\<lparr>p_input := Some (arg_input a), p_output := Some (arg_output a),
     p_framerate := Some (arg_framerate a), p_start := Some (arg_start a), p_end := Some (arg_end a)\<rparr>)"
  by (simp add: take_action_def int_value_def)

text \<open>Without the input pair, the rendered command line classifies and stores the same way.\<close>

lemma classify_render_tail:
  "plain_value (arg_output a) \<Longrightarrow>
   classify_args (drop 2 (render_argv a) @ rest) =
     map_sum id (\<lambda>ts. [(''-o'', TOpt ''-o'' OOutput None), (arg_output a, TArg),
        (''-fps'', TOpt ''-fps'' OFramerate None), (py_str_int (arg_framerate a), TArg),
        (''-s'', TOpt ''-s'' OStart None), (py_str_int (arg_start a), TArg),
        (''-e'', TOpt ''-e'' OEnd None), (py_str_int (arg_end a), TArg)] @ ts) (classify_args rest)"
  by (simp add: render_argv_def option_strings_def split: sum.split)

lemma consume_render_tail:
  "plain_value (arg_output a) \<Longrightarrow>
   consume ([(''-o'', TOpt ''-o'' OOutput None), (arg_output a, TArg),
        (''-fps'', TOpt ''-fps'' OFramerate None), (py_str_int (arg_framerate a), TArg),
        (''-s'', TOpt ''-s'' OStart None), (py_str_int (arg_start a), TArg),
        (''-e'', TOpt ''-e'' OEnd None), (py_str_int (arg_end a), TArg)] @ ts) st =
   consume ts (st\<lparr>p_output := Some (arg_output a), p_framerate := Some (arg_framerate a),
     p_start := Some (arg_start a), p_end := Some (arg_end a)\<rparr>)"
  by (simp add: take_action_def int_value_def)

text \<open>\<open>--\<close> is a prefix of every long option, so \<open>_parse_optional\<close> reports it as ambiguous.\<close>

lemma parse_optional_marker: "isl (parse_optional ''--'')"
proof -
  have "map_of option_strings ''--'' = None" by (simp add: option_strings_def)
  moreover have "length (option_tuples ''--'') = 6"
    by (simp add: option_tuples_def option_strings_def starts_with_def)
  ultimately show ?thesis by (auto simp: parse_optional_def Let_def)
qed

lemma parse_optional_Inr_not_marker: "parse_optional v = Inr t \<Longrightarrow> v \<noteq> ''--''"
  using parse_optional_marker by auto

lemma parse_optional_attached_input:
  "parse_optional (''--input='' @ v) = Inr (TOpt ''--input'' OInput (Some v))"
  by (simp add: parse_optional_def option_strings_def split_eq_def)

text \<open>Both entry points run the same parser and program.\<close>

lemma amccrop_cli_main_module: "amccrop_cli = main_module"
  by (intro ext)
     (simp add: amccrop_cli_def main_module_def amccrop_script_def crop_main_def crop_frames_def
        Let_def split: sum.split)

section \<open>Properties\<close>

text \<open>
  C14 (roundtrip): the command line of spec section 6 built from an
  argument record (\<open>-i I -o O -fps F -s S -e E\<close>, integers written by
  \<open>str\<close>, negative ones included) is parsed back to that record, provided
  the two stems do not start with \<open>-\<close>.
\<close>

theorem parse_args_render:
  "plain_value (arg_input a) \<Longrightarrow> plain_value (arg_output a) \<Longrightarrow> parse_args (render_argv a) = Inr a"
  using classify_render [of a "[]"] consume_render [of a "[]" empty_parsed]
  by (simp add: parse_args_def empty_parsed_def)

theorem parse_args_render_witness:
  "plain_value ''walk'' \<and> plain_value ''clip'' \<and>
   parse_args (render_argv
     \<lparr>arg_input = ''walk'', arg_output = ''clip'', arg_framerate = 30, arg_start = -5, arg_end = 20\<rparr>)
   = Inr \<lparr>arg_input = ''walk'', arg_output = ''clip'', arg_framerate = 30, arg_start = -5, arg_end = 20\<rparr>"
  using parse_args_render [of
      "\<lparr>arg_input = ''walk'', arg_output = ''clip'', arg_framerate = 30, arg_start = -5, arg_end = 20\<rparr>"]
  by (simp add: plain_value_def)

text \<open>
  C15 (functional): an option given twice takes its last value: appending
  \<open>--start K\<close> to a well-formed command line replaces the start second by
  \<open>K\<close> and changes nothing else.
\<close>

theorem parse_args_last_wins:
  "plain_value (arg_input a) \<Longrightarrow> plain_value (arg_output a) \<Longrightarrow>
   parse_args (render_argv a @ [''--start'', py_str_int k]) = Inr (a\<lparr>arg_start := k\<rparr>)"
  using classify_render [of a "[''--start'', py_str_int k]"]
    consume_render [of a "[(''--start'', TOpt ''--start'' OStart None), (py_str_int k, TArg)]" empty_parsed]
  by (simp add: parse_args_def empty_parsed_def option_strings_def take_action_def int_value_def)

theorem parse_args_last_wins_witness:
  "plain_value ''walk'' \<and> plain_value ''clip'' \<and>
   parse_args (render_argv
     \<lparr>arg_input = ''walk'', arg_output = ''clip'', arg_framerate = 30, arg_start = 5, arg_end = 20\<rparr>
     @ [''--start'', py_str_int 7])
   = Inr \<lparr>arg_input = ''walk'', arg_output = ''clip'', arg_framerate = 30, arg_start = 7, arg_end = 20\<rparr>"
  using parse_args_last_wins [of
      "\<lparr>arg_input = ''walk'', arg_output = ''clip'', arg_framerate = 30, arg_start = 5, arg_end = 20\<rparr>" 7]
  by (simp add: plain_value_def)

text \<open>
  C16 (error): a leading \<open>-h\<close> shows help and exits, whatever follows:
  missing options, bad integers and unknown strings after it are never
  reported; only an ambiguous option string, detected while classifying
  the whole command line, takes precedence.
\<close>

theorem parse_args_help_first:
  "parse_args (''-h'' # argv) =
     (case classify_args argv of Inl e \<Rightarrow> Inl e | Inr ts \<Rightarrow> Inl HelpShown)"
  by (simp add: parse_args_def option_strings_def split: sum.split)

text \<open>
  C17 (error): a value that \<open>int\<close> rejects, given to \<open>-fps\<close>, \<open>-s\<close> or \<open>-e\<close>
  (in any spelling), is reported as \<open>invalid int value\<close> as soon as it is
  consumed: before any missing option and any unrecognized string.
\<close>

theorem parse_args_invalid_int_first:
  "map_of option_strings f = Some a \<Longrightarrow> a \<in> {OFramerate, OStart, OEnd} \<Longrightarrow>
   parse_optional v = Inr TArg \<Longrightarrow> py_int v = None \<Longrightarrow>
   parse_args (f # v # rest) =
     (case classify_args rest of Inl e \<Rightarrow> Inl e | Inr ts \<Rightarrow> Inl (UsageError (InvalidInt a v)))"
  by (auto simp: parse_args_def take_action_def int_value_def split: sum.split)

theorem parse_args_invalid_int_first_witness:
  "map_of option_strings ''--framerate'' = Some OFramerate \<and> OFramerate \<in> {OFramerate, OStart, OEnd} \<and>
   parse_optional ''thirty'' = Inr TArg \<and> py_int ''thirty'' = None \<and>
   parse_args [''--framerate'', ''thirty'', ''-x'', ''-s''] = Inl (UsageError (InvalidInt OFramerate ''thirty''))"
proof -
  have h: "map_of option_strings ''--framerate'' = Some OFramerate" "OFramerate \<in> {OFramerate, OStart, OEnd}"
    "parse_optional ''thirty'' = Inr TArg" "py_int ''thirty'' = None"
    by (simp_all add: option_strings_def plain_value_def py_int_def py_strip_def py_isspace_def
        read_underscored_def is_decimal_def digit_value_def)
  show ?thesis
    using h parse_args_invalid_int_first [OF h, of "[''-x'', ''-s'']"]
    by (simp add: option_strings_def parse_optional_def option_tuples_def starts_with_def
        neg_number_def neg_number_body_def all_digits_def digit_value_def)
qed

text \<open>
  C18 (error): whatever follows, a string that \<open>argparse\<close> classifies as an
  option (known, a prefix, or unknown: every string starting with \<open>-\<close> that
  is not a negative number and holds no space) is never taken as the
  value of a preceding \<open>-i\<close>, \<open>-o\<close>, \<open>-fps\<close>, \<open>-s\<close> or \<open>-e\<close>: the parse stops
  with \<open>expected one argument\<close> for that option, so a stem such as
  \<open>-walk\<close> cannot be given as a separate argument.
\<close>

theorem parse_args_option_like_value:
  "map_of option_strings f = Some a \<Longrightarrow> a \<noteq> OHelp \<Longrightarrow> parse_optional v = Inr t \<Longrightarrow> t \<noteq> TArg \<Longrightarrow>
   parse_args (f # v # rest) =
     (case classify_args rest of Inl e \<Rightarrow> Inl e | Inr ts \<Rightarrow> Inl (UsageError (ExpectedOne a)))"
  using parse_optional_Inr_not_marker [of v t]
  by (cases t) (auto simp: parse_args_def split: sum.split)

theorem parse_args_option_like_value_witness:
  "map_of option_strings ''-i'' = Some OInput \<and> OInput \<noteq> OHelp \<and>
   parse_optional ''-walk'' = Inr TUnknown \<and> TUnknown \<noteq> TArg \<and>
   parse_args [''-i'', ''-walk'', ''-o'', ''clip''] = Inl (UsageError (ExpectedOne OInput))"
proof -
  have h: "map_of option_strings ''-i'' = Some OInput" "OInput \<noteq> OHelp"
    "parse_optional ''-walk'' = Inr TUnknown" "TUnknown \<noteq> TArg"
    by (simp_all add: option_strings_def parse_optional_def option_tuples_def starts_with_def
        neg_number_def neg_number_body_def all_digits_def digit_value_def)
  have c: "classify_args [''-o'', ''clip''] = Inr [(''-o'', TOpt ''-o'' OOutput None), (''clip'', TArg)]"
    by (simp add: option_strings_def plain_value_def)
  show ?thesis
    using h c parse_args_option_like_value [OF h, of "[''-o'', ''clip'']"] by simp
qed

text \<open>
  C19 (functional): attached to its option, every value is stored as
  given, a leading \<open>-\<close> included, except \<open>--\<close>: \<open>--input=V\<close> followed by
  the rest of a well-formed command line yields that line's record with
  input \<open>V\<close>, and for \<open>V = --\<close> Python 3.7 stores a list instead.
\<close>

theorem parse_args_attached_input:
  "plain_value (arg_output a) \<Longrightarrow>
   parse_args ((''--input='' @ v) # drop 2 (render_argv a)) =
     (if v = ''--'' then Inl (ListValued OInput) else Inr (a\<lparr>arg_input := v\<rparr>))"
proof -
  assume out: "plain_value (arg_output a)"
  define w where "w = ''--input='' @ v"
  have pw: "parse_optional w = Inr (TOpt ''--input'' OInput (Some v))"
    unfolding w_def by (rule parse_optional_attached_input)
  have "w \<noteq> ''--''" by (simp add: w_def)
  then show ?thesis
    unfolding w_def [symmetric]
    using out pw classify_render_tail [OF out, of "[]"]
      consume_render_tail [OF out, of "[]" "empty_parsed\<lparr>p_input := Some v\<rparr>"]
    by (simp add: parse_args_def take_action_def empty_parsed_def)
qed

theorem parse_args_attached_input_witness:
  "plain_value ''clip'' \<and>
   parse_args ((''--input='' @ ''-walk'') # drop 2 (render_argv
     \<lparr>arg_input = ''walk'', arg_output = ''clip'', arg_framerate = 30, arg_start = 0, arg_end = 1\<rparr>))
   = Inr \<lparr>arg_input = ''-walk'', arg_output = ''clip'', arg_framerate = 30, arg_start = 0, arg_end = 1\<rparr>"
  using parse_args_attached_input [of
      "\<lparr>arg_input = ''walk'', arg_output = ''clip'', arg_framerate = 30, arg_start = 0, arg_end = 1\<rparr>"
      "''-walk''"]
  by (simp add: plain_value_def)

end
