(* ===== verification/Runs.thy ===== *)
theory Runs
  imports Crop
begin

text \<open>
  Repeated invocations of the program on one file system.  Spec section 5
  calls each run independent and stateless beyond its process; the state
  that does persist between runs is the file system, which every run of
  \<open>crop_main\<close> may extend by one file.  \<open>crop_runs ParseAMC str_v fs0 fs\<close>
  says that \<open>fs\<close> is reached from \<open>fs0\<close> by a sequence of runs with
  arbitrary arguments (the inductive step relation, closed under
  reflexivity and one more run).  The lemmas are invariants of this
  relation, proved by rule induction from one-step preservation lemmas,
  and a progress property: the no-overwrite guard never blocks the tool
  for good.
\<close>

section \<open>Runs and the invariant\<close>

inductive crop_runs :: "'v amc_parser \<Rightarrow> ('v \<Rightarrow> string) \<Rightarrow> fs \<Rightarrow> fs \<Rightarrow> bool"
  for ParseAMC :: "'v amc_parser" and str_v :: "'v \<Rightarrow> string"
where
  no_run: "crop_runs ParseAMC str_v fs fs"
| run: "crop_runs ParseAMC str_v fs0 fs \<Longrightarrow>
          crop_runs ParseAMC str_v fs0 (snd (crop_main ParseAMC str_v args fs))"

text \<open>
  The files of a reachable file system: every file that existed at the
  start still has its contents, and every file that did not is a
  \<open>.amc\<close> file holding a serialized AMC document.
\<close>

definition tool_files_inv :: "('v \<Rightarrow> string) \<Rightarrow> fs \<Rightarrow> fs \<Rightarrow> bool" where
  "tool_files_inv str_v fs0 fs \<longleftrightarrow>
     (\<forall>p. fs0 p \<noteq> None \<longrightarrow> fs p = fs0 p) \<and>
     (\<forall>p c. fs0 p = None \<longrightarrow> fs p = Some c \<longrightarrow>
        (\<exists>stem frames. p = stem @ ''.amc'' \<and> c = amc_document str_v frames))"

section \<open>Lemmas\<close>

text \<open>One run either leaves the file system alone or adds one new \<open>.amc\<close> document.\<close>

lemma crop_main_effect:
  "snd (crop_main ParseAMC str_v args fs) = fs \<or>
   (\<exists>frames. fs (arg_output args @ ''.amc'') = None \<and>
      snd (crop_main ParseAMC str_v args fs)
        = fs(arg_output args @ ''.amc'' \<mapsto> amc_document str_v frames))"
  by (auto simp: crop_main_cases SaveAmc_def parseToAmc_as_lines amc_document_def
      dest: CheckArgs_Inr_no_output split: sum.split)

lemma tool_files_inv_refl [simp]: "tool_files_inv str_v fs fs"
  by (simp add: tool_files_inv_def)

lemma tool_files_inv_step:
  assumes "tool_files_inv str_v fs0 fs"
  shows "tool_files_inv str_v fs0 (snd (crop_main ParseAMC str_v args fs))"
  using crop_main_effect [of ParseAMC str_v args fs]
proof
  assume "snd (crop_main ParseAMC str_v args fs) = fs"
  with assms show ?thesis by simp
next
  assume "\<exists>frames. fs (arg_output args @ ''.amc'') = None \<and>
      snd (crop_main ParseAMC str_v args fs)
        = fs(arg_output args @ ''.amc'' \<mapsto> amc_document str_v frames)"
  then obtain frames where new: "fs (arg_output args @ ''.amc'') = None"
    and fs': "snd (crop_main ParseAMC str_v args fs)
        = fs(arg_output args @ ''.amc'' \<mapsto> amc_document str_v frames)" by blast
  from assms new have "fs0 (arg_output args @ ''.amc'') = None"
    by (auto simp: tool_files_inv_def)
  with assms new show ?thesis
    unfolding fs' tool_files_inv_def by auto
qed

lemma crop_runs_finite:
  "crop_runs ParseAMC str_v fs0 fs \<Longrightarrow> finite (dom fs0) \<Longrightarrow> finite (dom fs)"
proof (induction rule: crop_runs.induct)
  case (run fs0 fs args)
  then show ?case
    using crop_main_effect [of ParseAMC str_v args fs]
    by (auto simp: dom_fun_upd simp del: fun_upd_apply)
qed simp

text \<open>Among infinitely many stems, one is neither the input nor an existing output.\<close>

lemma fresh_stem:
  assumes "finite (dom fs)"
  obtains out where "out \<noteq> inp" "fs (out @ ''.amc'') = None"
proof -
  have "finite ((\<lambda>p. take (length p - 4) p) ` dom fs \<union> {inp})"
    using assms by simp
  then obtain out :: string where out: "out \<notin> (\<lambda>p. take (length p - 4) p) ` dom fs \<union> {inp}"
    using ex_new_if_finite [OF infinite_UNIV_listI] by blast
  have "fs (out @ ''.amc'') = None"
  proof (rule ccontr)
    assume "fs (out @ ''.amc'') \<noteq> None"
    then have "out @ ''.amc'' \<in> dom fs" by blast
    then have "take (length (out @ ''.amc'') - 4) (out @ ''.amc'') \<in> (\<lambda>p. take (length p - 4) p) ` dom fs"
      by blast
    with out show False by simp
  qed
  with out show ?thesis using that by blast
qed


section \<open>Properties\<close>

text \<open>
  C20 (invariant): along any sequence of runs, whatever the arguments and
  whatever the parser returns, the files present at the start keep their
  contents and every file added is a \<open>.amc\<close> file holding a serialized
  AMC document: the tool never destroys data and never writes anything
  but its output format.
\<close>

theorem crop_runs_tool_files:
  "crop_runs ParseAMC str_v fs0 fs \<Longrightarrow> tool_files_inv str_v fs0 fs"
  by (induction rule: crop_runs.induct) (simp_all add: tool_files_inv_step)

theorem crop_runs_tool_files_witness:
  "crop_runs (\<lambda>_ _. Inr \<lparr>amc_frames = [[(''root'', [0::int])]], amc_count = 30\<rparr>) py_str_int
     [''walk.amc'' \<mapsto> ''raw'']
     (snd (crop_main (\<lambda>_ _. Inr \<lparr>amc_frames = [[(''root'', [0::int])]], amc_count = 30\<rparr>) py_str_int
        \<lparr>arg_input = ''walk'', arg_output = ''walk'', arg_framerate = 1, arg_start = 0, arg_end = 1\<rparr>
        (snd (crop_main (\<lambda>_ _. Inr \<lparr>amc_frames = [[(''root'', [0::int])]], amc_count = 30\<rparr>) py_str_int
           \<lparr>arg_input = ''walk'', arg_output = ''clip'', arg_framerate = 1, arg_start = 0, arg_end = 1\<rparr>
           [''walk.amc'' \<mapsto> ''raw'']))))
   \<and> tool_files_inv py_str_int [''walk.amc'' \<mapsto> ''raw'']
     (snd (crop_main (\<lambda>_ _. Inr \<lparr>amc_frames = [[(''root'', [0::int])]], amc_count = 30\<rparr>) py_str_int
        \<lparr>arg_input = ''walk'', arg_output = ''walk'', arg_framerate = 1, arg_start = 0, arg_end = 1\<rparr>
        (snd (crop_main (\<lambda>_ _. Inr \<lparr>amc_frames = [[(''root'', [0::int])]], amc_count = 30\<rparr>) py_str_int
           \<lparr>arg_input = ''walk'', arg_output = ''clip'', arg_framerate = 1, arg_start = 0, arg_end = 1\<rparr>
           [''walk.amc'' \<mapsto> ''raw'']))))"
  (is "?r \<and> _")
proof -
  have r: ?r by (intro crop_runs.run crop_runs.no_run)
  show ?thesis using r crop_runs_tool_files [OF r] by simp
qed

text \<open>
  C21 (liveness): the no-overwrite guard never stops the tool for good.
  From any file system reached by runs from one with finitely many
  files, if the input parses to a motion of at least 30 frames, some
  output stem is free: cropping its first second at 1 fps succeeds and
  creates that new file with the serialized first frame.
\<close>

theorem crop_runs_progress:
  "crop_runs ParseAMC str_v fs0 fs \<Longrightarrow> finite (dom fs0) \<Longrightarrow>
   ParseAMC fs (inp @ ''.amc'') = Inr amc \<Longrightarrow> 30 \<le> amc_count amc \<Longrightarrow>
   \<exists>out. fs (out @ ''.amc'') = None \<and>
     crop_main ParseAMC str_v
       \<lparr>arg_input = inp, arg_output = out, arg_framerate = 1, arg_start = 0, arg_end = 1\<rparr> fs
     = (Inr (), fs(out @ ''.amc'' \<mapsto> amc_document str_v (take 1 (amc_frames amc))))"
proof -
  assume runs: "crop_runs ParseAMC str_v fs0 fs" and fin0: "finite (dom fs0)"
    and parsed: "ParseAMC fs (inp @ ''.amc'') = Inr amc" and cnt: "30 \<le> amc_count amc"
  obtain out where out: "out \<noteq> inp" "fs (out @ ''.amc'') = None"
    using fresh_stem [OF crop_runs_finite [OF runs fin0]] by blast
  let ?args = "\<lparr>arg_input = inp, arg_output = out, arg_framerate = 1, arg_start = 0, arg_end = 1\<rparr>"
  have ok: "CheckArgs fs ?args amc = Inr True"
    using out cnt by (simp add: CheckArgs_cases)
  have "crop_frames ?args amc = take 1 (amc_frames amc)"
    by (cases "amc_frames amc") (simp_all add: crop_frames_def py_slice_nonneg)
  with parsed ok out show ?thesis
    by (intro exI [of _ out]) (simp add: crop_main_cases SaveAmc_def parseToAmc_as_lines amc_document_def)
qed

theorem crop_runs_progress_witness:
  "crop_runs (\<lambda>_ _. Inr \<lparr>amc_frames = [[(''root'', [0::int])]], amc_count = 30\<rparr>) py_str_int
     [''walk.amc'' \<mapsto> ''raw''] [''walk.amc'' \<mapsto> ''raw''] \<and>
   finite (dom [''walk.amc'' \<mapsto> ''raw'']) \<and>
   (\<exists>out. [''walk.amc'' \<mapsto> ''raw''] (out @ ''.amc'') = None \<and>
     crop_main (\<lambda>_ _. Inr \<lparr>amc_frames = [[(''root'', [0::int])]], amc_count = 30\<rparr>) py_str_int
       \<lparr>arg_input = ''walk'', arg_output = out, arg_framerate = 1, arg_start = 0, arg_end = 1\<rparr>
       [''walk.amc'' \<mapsto> ''raw'']
     = (Inr (), [''walk.amc'' \<mapsto> ''raw'', out @ ''.amc'' \<mapsto> amc_document py_str_int [[(''root'', [0])]]]))"
proof -
  have r: "crop_runs (\<lambda>_ _. Inr \<lparr>amc_frames = [[(''root'', [0::int])]], amc_count = 30\<rparr>) py_str_int
     [''walk.amc'' \<mapsto> ''raw''] [''walk.amc'' \<mapsto> ''raw'']" by (rule crop_runs.no_run)
  have f: "finite (dom [''walk.amc'' \<mapsto> ''raw''])" by simp
  show ?thesis
    using r f crop_runs_progress [where inp = "''walk''"
        and amc = "\<lparr>amc_frames = [[(''root'', [0::int])]], amc_count = 30\<rparr>", OF r f]
    by simp
qed

end
