(* ===== verification/PyFloat.thy ===== *)
theory PyFloat
  imports PyRuntime
begin

text \<open>
  Python's \<open>str\<close> of a float, the text of a channel value in \<open>parseToAmc\<close>
  (\<open>f"\t{str(float)}"\<close>).  CPython renders a float by its shortest
  round-tripping decimal digits (David Gay's \<open>dtoa\<close>, mode 0) and then
  formats them (\<open>format_float_short\<close> in \<open>Python/pystrtod.c\<close>, repr mode,
  with the flag that adds \<open>.0\<close> to integral values).  The model represents a
  finite float by that digit string and its decimal point position:
  \<open>PyFinite neg ds decpt\<close> is \<open>(-1)^neg * 0.d1 d2 ... dn * 10^decpt\<close>.  The
  digit generation from the binary value is not modelled; the formatting
  is.  Fixed notation is used for \<open>-4 < decpt \<le> 16\<close>, exponent notation
  (\<open>d.ddde+XX\<close>, at least two exponent digits, no added \<open>.0\<close>) otherwise.
\<close>

datatype py_float = PyFinite bool "nat list" int | PyInf bool | PyNaN

definition digit_str :: "nat list \<Rightarrow> string" where
  "digit_str ds = map (\<lambda>d. digit_chars ! d) ds"

definition exp_str :: "int \<Rightarrow> string" where
  "exp_str e =
     (if e < 0 then CHR ''-'' else CHR ''+'') #
     (let s = py_str_nat (nat \<bar>e\<bar>) in if length s < 2 then CHR ''0'' # s else s)"

definition repr_fixed :: "nat list \<Rightarrow> int \<Rightarrow> string" where
  "repr_fixed ds decpt =
     (if decpt \<le> 0 then ''0.'' @ replicate (nat (- decpt)) (CHR ''0'') @ digit_str ds
      else if length ds \<le> nat decpt
        then digit_str ds @ replicate (nat decpt - length ds) (CHR ''0'') @ ''.0''
      else digit_str (take (nat decpt) ds) @ CHR ''.'' # digit_str (drop (nat decpt) ds))"

definition repr_exp :: "nat list \<Rightarrow> int \<Rightarrow> string" where
  "repr_exp ds decpt =
     digit_str (take 1 ds) @ (if 1 < length ds then CHR ''.'' # digit_str (drop 1 ds) else [])
     @ CHR ''e'' # exp_str (decpt - 1)"

fun py_float_repr :: "py_float \<Rightarrow> string" where
  "py_float_repr PyNaN = ''nan''"
| "py_float_repr (PyInf neg) = (if neg then ''-inf'' else ''inf'')"
| "py_float_repr (PyFinite neg ds decpt) =
     (if neg then ''-'' else []) @
     (if decpt \<le> -4 \<or> 16 < decpt then repr_exp ds decpt else repr_fixed ds decpt)"

text \<open>The digit strings \<open>dtoa\<close> produces are decimal digits.\<close>

fun wf_py_float :: "py_float \<Rightarrow> bool" where
  "wf_py_float (PyFinite neg ds decpt) \<longleftrightarrow> ds \<noteq> [] \<and> list_all (\<lambda>d. d < 10) ds"
| "wf_py_float _ \<longleftrightarrow> True"

section \<open>Lemmas\<close>

lemma digit_str_chars:
  "list_all (\<lambda>d. d < 10) ds \<Longrightarrow> c \<in> set (digit_str ds) \<Longrightarrow> c \<noteq> nl \<and> c \<noteq> tab"
  by (auto simp: digit_str_def list_all_iff)

lemma digit_str_no_ctrl [simp]:
  "list_all (\<lambda>d. d < 10) ds \<Longrightarrow> nl \<notin> set (digit_str ds) \<and> tab \<notin> set (digit_str ds)"
  using digit_str_chars by blast

lemma exp_str_no_ctrl [simp]: "nl \<notin> set (exp_str e) \<and> tab \<notin> set (exp_str e)"
  by (simp add: exp_str_def Let_def)

lemma py_float_repr_no_ctrl:
  "wf_py_float f \<Longrightarrow> nl \<notin> set (py_float_repr f) \<and> tab \<notin> set (py_float_repr f)"
proof (cases f)
  case (PyFinite neg ds decpt)
  moreover assume "wf_py_float f"
  ultimately have ds: "list_all (\<lambda>d. d < 10) ds" by simp
  then have "list_all (\<lambda>d. d < 10) (take n ds)" "list_all (\<lambda>d. d < 10) (drop n ds)" for n
    by (auto simp: list_all_iff dest: in_set_takeD in_set_dropD)
  with ds PyFinite show ?thesis
    by (auto simp: repr_fixed_def repr_exp_def)
qed simp_all

end
