(* ===== verification/FloatReader.thy ===== *)
theory FloatReader
  imports PyFloat AmcReader
begin

text \<open>
  A reader for the text CPython's \<open>repr\<close> gives a float (not in the
  repository: it states what \<open>py_float_repr\<close> writes).  It accepts
  \<open>nan\<close>, \<open>inf\<close>, \<open>-inf\<close>, fixed notation \<open>[-]I.F\<close> and exponent notation
  \<open>[-]D[.F]e(+|-)X\<close>, collects the digits and the decimal point position,
  and normalises them the way \<open>dtoa\<close> delivers its shortest digits: no
  leading and no trailing zeros, and the single digit \<open>0\<close> at position 1
  for zero.  On those canonical floats the reader inverts \<open>py_float_repr\<close>,
  so the serializer's round trip holds for float channel values.
\<close>

section \<open>The reader\<close>

definition read_digit_list :: "string \<Rightarrow> nat list option" where
  "read_digit_list s = (if s = [] then None else those (map digit_value s))"

definition strip_zeros :: "nat list \<Rightarrow> int \<Rightarrow> nat list \<times> int" where
  "strip_zeros ds decpt =
     (let core = rev (dropWhile (\<lambda>d. d = 0) (rev (dropWhile (\<lambda>d. d = 0) ds)))
      in if core = [] then ([0], 1)
         else (core, decpt - int (length (takeWhile (\<lambda>d. d = 0) ds))))"

definition read_exponent :: "string \<Rightarrow> int option" where
  "read_exponent s =
     (case s of
        c # r \<Rightarrow> if c = CHR ''+'' then map_option int (read_nat r)
                 else if c = CHR ''-'' then map_option (\<lambda>n. - int n) (read_nat r)
                 else None
      | [] \<Rightarrow> None)"

text \<open>The digits and decimal point position of an unsigned finite repr.\<close>

definition read_unsigned :: "string \<Rightarrow> (nat list \<times> int) option" where
  "read_unsigned s =
     (if CHR ''e'' \<in> set s then
        (case (split_on (CHR ''.'') (takeWhile (\<lambda>c. c \<noteq> CHR ''e'') s),
               read_exponent (drop 1 (dropWhile (\<lambda>c. c \<noteq> CHR ''e'') s))) of
           ([i], Some x) \<Rightarrow>
             (case read_digit_list i of
                Some [d] \<Rightarrow> Some ([d], x + 1)
              | _ \<Rightarrow> None)
         | ([i, f], Some x) \<Rightarrow>
             (case (read_digit_list i, read_digit_list f) of
                (Some [d], Some fs) \<Rightarrow> Some (d # fs, x + 1)
              | _ \<Rightarrow> None)
         | _ \<Rightarrow> None)
      else
        (case split_on (CHR ''.'') s of
           [i, f] \<Rightarrow>
             (case (read_digit_list i, read_digit_list f) of
                (Some is, Some fs) \<Rightarrow> Some (is @ fs, int (length is))
              | _ \<Rightarrow> None)
         | _ \<Rightarrow> None))"

definition read_float :: "string \<Rightarrow> py_float option" where
  "read_float s =
     (if s = ''nan'' then Some PyNaN
      else if s = ''inf'' then Some (PyInf False)
      else if s = ''-inf'' then Some (PyInf True)
      else
        (let (neg, body) = (case s of c # r \<Rightarrow> if c = CHR ''-'' then (True, r) else (False, s)
                                     | [] \<Rightarrow> (False, s))
         in map_option (\<lambda>(ds, decpt). case strip_zeros ds decpt of (ds', d') \<Rightarrow> PyFinite neg ds' d')
              (read_unsigned body)))"

text \<open>The digit strings \<open>dtoa\<close> returns in its shortest mode.\<close>

fun canonical_float :: "py_float \<Rightarrow> bool" where
  "canonical_float (PyFinite neg ds decpt) \<longleftrightarrow>
     ds \<noteq> [] \<and> list_all (\<lambda>d. d < 10) ds \<and>
     ((ds = [0] \<and> decpt = 1) \<or> (hd ds \<noteq> 0 \<and> last ds \<noteq> 0))"
| "canonical_float _ \<longleftrightarrow> True"

section \<open>Lemmas\<close>

lemma digit_value_digit_str [simp]:
  "list_all (\<lambda>d. d < 10) ds \<Longrightarrow> those (map digit_value (digit_str ds)) = Some ds"
  by (induction ds) (simp_all add: digit_str_def)

lemma digit_str_Nil_iff [simp]: "digit_str ds = [] \<longleftrightarrow> ds = []"
  by (simp add: digit_str_def)

lemma read_digit_list_digit_str [simp]:
  "ds \<noteq> [] \<Longrightarrow> list_all (\<lambda>d. d < 10) ds \<Longrightarrow> read_digit_list (digit_str ds) = Some ds"
  by (simp add: read_digit_list_def)

lemma digit_chars_not_punct [simp]:
  "d < 10 \<Longrightarrow> CHR ''.'' \<noteq> digit_chars ! d" "d < 10 \<Longrightarrow> CHR ''e'' \<noteq> digit_chars ! d"
  "d < 10 \<Longrightarrow> CHR ''-'' \<noteq> digit_chars ! d"
  by (drule less_10_cases; elim disjE; simp add: digit_chars_def)+

lemma digit_str_plain [simp]:
  "list_all (\<lambda>d. d < 10) ds \<Longrightarrow>
     CHR ''.'' \<notin> set (digit_str ds) \<and> CHR ''e'' \<notin> set (digit_str ds) \<and> CHR ''-'' \<notin> set (digit_str ds)"
  by (auto simp: digit_str_def list_all_iff)

lemma strip_zeros_canonical:
  assumes "ds \<noteq> []" "hd ds \<noteq> 0" "last ds \<noteq> 0"
  shows "strip_zeros (replicate k 0 @ ds @ replicate m 0) d = (ds, d - int k)"
proof -
  have lead: "dropWhile (\<lambda>x. x = 0) (replicate k 0 @ ds @ replicate m 0) = ds @ replicate m 0"
    "takeWhile (\<lambda>x. x = 0) (replicate k 0 @ ds @ replicate m 0) = replicate k 0"
    using assms by (cases ds; simp add: dropWhile_append takeWhile_append)+
  have "dropWhile (\<lambda>x. x = 0) (rev (ds @ replicate m 0)) = rev ds"
    using assms by (cases "rev ds") (simp_all add: dropWhile_append)
  with lead assms show ?thesis by (simp add: strip_zeros_def)
qed


lemma strip_zeros_all_zero: "strip_zeros (replicate n 0) d = ([0], 1)"
  by (simp add: strip_zeros_def)

lemma zeros_digit_str: "replicate k (CHR ''0'') = digit_str (replicate k 0)"
  by (simp add: digit_str_def digit_chars_def)

lemma read_nat_leading_zero: "read_nat (CHR ''0'' # s) = (if s = [] then Some 0 else read_nat s)"
  by (cases s) (simp_all add: read_nat_def digit_value_def)

lemma read_exponent_exp_str [simp]: "read_exponent (exp_str e) = Some e"
  by (simp add: exp_str_def read_exponent_def Let_def read_nat_leading_zero)

lemma list_all_replicate_zero [simp]:
  "list_all (\<lambda>d. d < 10) (replicate k (0::nat))"
  by (simp add: list_all_iff)

text \<open>Each notation of \<open>py_float_repr\<close> reads back to its digits and point position.\<close>

lemma read_unsigned_exp:
  assumes "ds \<noteq> []" "list_all (\<lambda>d. d < 10) ds"
  shows "read_unsigned (repr_exp ds decpt) = Some (ds, decpt)"
proof -
  obtain d rest where ds: "ds = d # rest" using assms by (cases ds) auto
  have d: "d < 10" and rest: "list_all (\<lambda>d. d < 10) rest" using assms ds by simp_all
  have e: "CHR ''e'' \<notin> set (digit_str [d])" "CHR ''.'' \<notin> set (digit_str [d])"
    using d by simp_all
  show ?thesis
  proof (cases "rest = []")
    case True
    with ds d e show ?thesis
      by (simp add: repr_exp_def read_unsigned_def takeWhile_append dropWhile_append)
  next
    case False
    with ds d e rest show ?thesis
      by (simp add: repr_exp_def read_unsigned_def takeWhile_append dropWhile_append
          split_on_append_sep)
  qed
qed


lemma read_unsigned_point:
  assumes "is \<noteq> []" "fs \<noteq> []" "list_all (\<lambda>d. d < 10) is" "list_all (\<lambda>d. d < 10) fs"
  shows "read_unsigned (digit_str is @ CHR ''.'' # digit_str fs) = Some (is @ fs, int (length is))"
  using assms by (simp add: read_unsigned_def split_on_append_sep)

lemma digit_str_append: "digit_str (xs @ ys) = digit_str xs @ digit_str ys"
  by (simp add: digit_str_def)

lemma repr_fixed_point:
  assumes "ds \<noteq> []"
  shows "repr_fixed ds decpt =
     (if decpt \<le> 0 then digit_str [0] @ CHR ''.'' # digit_str (replicate (nat (- decpt)) 0 @ ds)
      else if length ds \<le> nat decpt
        then digit_str (ds @ replicate (nat decpt - length ds) 0) @ CHR ''.'' # digit_str [0]
      else digit_str (take (nat decpt) ds) @ CHR ''.'' # digit_str (drop (nat decpt) ds))"
  by (simp add: repr_fixed_def digit_str_append zeros_digit_str)
     (simp add: digit_str_def digit_chars_def)


lemma strip_zeros_id:
  "ds \<noteq> [] \<Longrightarrow> hd ds \<noteq> 0 \<Longrightarrow> last ds \<noteq> 0 \<Longrightarrow> strip_zeros ds d = (ds, d)"
  using strip_zeros_canonical [of ds 0 0 d] by simp

lemma repr_body_reads:
  assumes c: "canonical_float (PyFinite neg ds decpt)"
  shows "map_option (\<lambda>(ds0, d0). strip_zeros ds0 d0)
     (read_unsigned (if decpt \<le> -4 \<or> 16 < decpt then repr_exp ds decpt else repr_fixed ds decpt))
     = Some (ds, decpt)"
proof -
  have ne: "ds \<noteq> []" and dg: "list_all (\<lambda>d. d < 10) ds" using c by simp_all
  have dg': "list_all (\<lambda>d. d < 10) (take n ds)" "list_all (\<lambda>d. d < 10) (drop n ds)" for n
    using dg by (auto simp: list_all_iff dest: in_set_takeD in_set_dropD)
  consider (zero) "ds = [0]" "decpt = 1" | (nz) "hd ds \<noteq> 0" "last ds \<noteq> 0" using c by auto
  then show ?thesis
  proof cases
    case zero
    then have "read_unsigned (repr_fixed ds decpt) = Some (replicate 2 0, 1)"
      using read_unsigned_point [of "[0]" "[0]"] by (simp add: repr_fixed_point numeral_eq_Suc)
    with zero show ?thesis by (simp add: strip_zeros_all_zero)
  next
    case nz
    show ?thesis
    proof (cases "decpt \<le> -4 \<or> 16 < decpt")
      case True
      with ne dg nz show ?thesis by (simp add: read_unsigned_exp strip_zeros_id)
    next
      case fixed: False
      consider (frac) "decpt \<le> 0" | (int) "0 < decpt" "length ds \<le> nat decpt"
        | (mid) "0 < decpt" "nat decpt < length ds" by linarith
      then show ?thesis
      proof cases
        case frac
        have r: "read_unsigned (repr_fixed ds decpt) = Some (0 # replicate (nat (- decpt)) 0 @ ds, 1)"
          using frac ne dg read_unsigned_point [of "[0]" "replicate (nat (- decpt)) 0 @ ds"]
          by (simp add: repr_fixed_point)
        have "strip_zeros (replicate (Suc (nat (- decpt))) 0 @ ds @ replicate 0 0) 1
            = (ds, 1 - int (Suc (nat (- decpt))))"
          using ne nz by (rule strip_zeros_canonical)
        with frac have "strip_zeros (0 # replicate (nat (- decpt)) 0 @ ds) 1 = (ds, decpt)" by simp
        with fixed r show ?thesis by simp
      next
        case int
        have r: "read_unsigned (repr_fixed ds decpt)
            = Some (ds @ 0 # replicate (nat decpt - length ds) 0, decpt)"
          using int ne dg read_unsigned_point [of "ds @ replicate (nat decpt - length ds) 0" "[0]"]
          by (simp add: repr_fixed_point replicate_append_same)
        have "strip_zeros (replicate 0 0 @ ds @ replicate (Suc (nat decpt - length ds)) 0) decpt
            = (ds, decpt - int 0)"
          using ne nz by (rule strip_zeros_canonical)
        then have "strip_zeros (ds @ 0 # replicate (nat decpt - length ds) 0) decpt = (ds, decpt)"
          by simp
        with fixed r show ?thesis by simp
      next
        case mid
        then have "read_unsigned (repr_fixed ds decpt) = Some (ds, decpt)"
          using ne dg' read_unsigned_point [of "take (nat decpt) ds" "drop (nat decpt) ds"]
          by (simp add: repr_fixed_point min_def)
        with fixed ne nz show ?thesis by (simp add: strip_zeros_id)
      qed
    qed
  qed
qed


lemma hd_digit_str_append:
  "xs \<noteq> [] \<Longrightarrow> list_all (\<lambda>d. d < 10) xs \<Longrightarrow> digit_value (hd (digit_str xs @ r)) \<noteq> None"
  by (cases xs) (simp_all add: digit_str_def)

lemma repr_body_hd:
  assumes "canonical_float (PyFinite neg ds decpt)"
  shows "digit_value (hd (if decpt \<le> -4 \<or> 16 < decpt then repr_exp ds decpt else repr_fixed ds decpt))
     \<noteq> None"
proof -
  have ne: "ds \<noteq> []" and dg: "list_all (\<lambda>d. d < 10) ds" using assms by simp_all
  have tk: "list_all (\<lambda>d. d < 10) (take n ds)" for n
    using dg by (auto simp: list_all_iff dest: in_set_takeD)
  have "digit_value (hd (repr_exp ds decpt)) \<noteq> None"
    unfolding repr_exp_def append_assoc using ne tk by (intro hd_digit_str_append) simp_all
  moreover have "digit_value (hd (repr_fixed ds decpt)) \<noteq> None"
  proof -
    have a: "digit_value (hd (digit_str [0] @ r)) \<noteq> None" for r
      by (rule hd_digit_str_append) simp_all
    have b: "digit_value (hd (digit_str (ds @ replicate k 0) @ r)) \<noteq> None" for k r
      by (rule hd_digit_str_append) (use ne dg in simp_all)
    have c: "0 < decpt \<Longrightarrow> digit_value (hd (digit_str (take (nat decpt) ds) @ r)) \<noteq> None" for r
      by (rule hd_digit_str_append) (use ne tk in simp_all)
    show ?thesis unfolding repr_fixed_point [OF ne]
      using a [of "CHR ''.'' # digit_str (replicate (nat (- decpt)) 0 @ ds)"]
        b [of "nat decpt - length ds" "CHR ''.'' # digit_str [0]"]
        c [of "CHR ''.'' # digit_str (drop (nat decpt) ds)"]
      by (simp del: digit_str_Nil_iff)
  qed
  ultimately show ?thesis by simp
qed

lemma read_float_repr:
  assumes c: "canonical_float f"
  shows "read_float (py_float_repr f) = Some f"
proof (cases f)
  case (PyFinite neg ds decpt)
  let ?b = "if decpt \<le> -4 \<or> 16 < decpt then repr_exp ds decpt else repr_fixed ds decpt"
  from c PyFinite obtain p where p: "read_unsigned ?b = Some p" "case p of (a, b) \<Rightarrow> strip_zeros a b = (ds, decpt)"
    using repr_body_reads [of neg ds decpt] by (cases "read_unsigned ?b") auto
  from c PyFinite have h: "digit_value (hd ?b) \<noteq> None" by (simp add: repr_body_hd)
  from p(1) obtain x r where b: "?b = x # r"
    by (cases ?b) (simp_all add: read_unsigned_def)
  with h have "x \<noteq> CHR ''n''" "x \<noteq> CHR ''i''" "x \<noteq> CHR ''-''"
    by (auto simp: digit_value_def)
  with p b PyFinite show ?thesis
    by (cases neg; cases p) (simp_all add: read_float_def)
qed (simp_all add: read_float_def)

lemma canonical_float_wf: "canonical_float f \<Longrightarrow> wf_py_float f"
  by (cases f) simp_all

section \<open>Properties\<close>

text \<open>
  C22 (roundtrip): with float channel values written by CPython's \<open>repr\<close>,
  reading the text \<open>parseToAmc\<close> writes gives back every frame, in order,
  with its index \<open>1, 2, ...\<close>, provided the bone names are not numerals and
  hold no tab or newline, and each value is given by its shortest digits
  (as \<open>dtoa\<close> produces them): no float value is lost or altered in the text.
\<close>

theorem read_amc_parseToAmc_float:
  "list_all (list_all (\<lambda>b. read_nat (fst b) = None \<and> tab \<notin> set (fst b) \<and> nl \<notin> set (fst b) \<and>
       list_all canonical_float (snd b))) frames \<Longrightarrow>
   read_amc read_float (parseToAmc py_float_repr frames) = Some (enumerate 1 frames)"
proof -
  assume h: "list_all (list_all (\<lambda>b. read_nat (fst b) = None \<and> tab \<notin> set (fst b) \<and>
       nl \<notin> set (fst b) \<and> list_all canonical_float (snd b))) frames"
  have "wf_value py_float_repr read_float v" if "canonical_float v" for v
    using that read_float_repr py_float_repr_no_ctrl [OF canonical_float_wf]
    by (simp add: wf_value_def)
  with h have "wf_frames py_float_repr read_float frames"
    by (auto simp: wf_frames_def wf_bone_def list_all_iff)
  then show ?thesis
    unfolding parseToAmc_as_lines by (rule read_amc_document)
qed

theorem read_amc_parseToAmc_float_witness:
  "list_all (list_all (\<lambda>b. read_nat (fst b) = None \<and> tab \<notin> set (fst b) \<and> nl \<notin> set (fst b) \<and>
       list_all canonical_float (snd b)))
     [[(''root'', [PyFinite False [0] 1, PyFinite False [1, 5] 1, PyFinite True [2, 2, 5] 1])]] \<and>
   read_amc read_float (parseToAmc py_float_repr
     [[(''root'', [PyFinite False [0] 1, PyFinite False [1, 5] 1, PyFinite True [2, 2, 5] 1])]])
   = Some [(1, [(''root'', [PyFinite False [0] 1, PyFinite False [1, 5] 1, PyFinite True [2, 2, 5] 1])])]"
proof -
  have h: "list_all (list_all (\<lambda>b. read_nat (fst b) = None \<and> tab \<notin> set (fst b) \<and>
       nl \<notin> set (fst b) \<and> list_all canonical_float (snd b)))
     [[(''root'', [PyFinite False [0] 1, PyFinite False [1, 5] 1, PyFinite True [2, 2, 5] 1])]]"
    by (simp add: read_nat_def digit_value_def)
  show ?thesis using h read_amc_parseToAmc_float [OF h] by simp
qed


end
