(* ===== verification/Setup.thy ===== *)
theory Setup
  imports Args
begin

text \<open>
  The packaging script \<open>src/setup.py\<close>: it reads \<open>README.md\<close> beside itself
  (\<open>(HERE / "README.md").read_text()\<close>, which raises \<open>FileNotFoundError\<close>
  when the file is missing) and calls \<open>setup\<close> with the distribution's
  metadata.  The metadata is the record \<open>dist_meta\<close>; which source files
  the build installs follows distutils' \<open>build_py.find_modules\<close> for the
  top-level modules of \<open>py_modules\<close>: the file \<open>module.py\<close> in the
  directory \<open>package_dir[""]\<close> (the setup directory when there is no
  entry), skipped with a warning when it does not exist.  Dotted module
  names (modules inside packages) do not occur and are not modelled.
\<close>

section \<open>Data and operations\<close>

text \<open>The keyword arguments of \<open>setup(...)\<close>.\<close>

record dist_meta =
  dist_name :: string
  dist_version :: string
  dist_description :: string
  dist_long_description_content_type :: string
  dist_long_description :: string
  dist_py_modules :: "string list"
  dist_package_dir :: "(string \<times> string) list"
  dist_classifiers :: "string list"
  dist_url :: string
  dist_author :: string
  dist_author_email :: string
  dist_install_requires :: "string list"

text \<open>\<open>pathlib\<close>'s \<open>/\<close> and \<open>os.path.join\<close> on relative paths; \<open>""\<close> and \<open>.\<close> are the current directory.\<close>

definition path_join :: "path \<Rightarrow> path \<Rightarrow> path" where
  "path_join a b = (if a = [] \<or> a = ''.'' then b else a @ CHR ''/'' # b)"

definition setup_call :: "string \<Rightarrow> dist_meta" where
  "setup_call README =
     \<lparr>dist_name = ''amc-cropper'',
      dist_version = ''0.0.1'',
      dist_description = ''Crops AMC files to descired length based on provided fps, start, and end whole seconds. Works through command line.'',
      dist_long_description_content_type = ''text/markdown'',
      dist_long_description = README,
      dist_py_modules = [''amccrop''],
      dist_package_dir = [([], ''amccrop'')],
      dist_classifiers =
        [''Programming Language :: Python :: 3.6'', ''Programming Language :: Python :: 3.7'',
         ''License :: OSI Approved :: MIT License'', ''Natural Language :: English'',
         ''Topic :: Software Development :: Libraries''],
      dist_url = ''https://github.com/UomoCaffeLatte/AMCCrop'',
      dist_author = ''Nikhil Reji'',
      dist_author_email = ''Nikhil.Reji@live.co.uk'',
      dist_install_requires = [''AsfAmc-Parser'']\<rparr>"

text \<open>The script run in its directory \<open>HERE\<close>: the README read, then \<open>setup\<close>.\<close>

definition setup_py :: "fs \<Rightarrow> path \<Rightarrow> py_exn + dist_meta" where
  "setup_py fs HERE =
     (let readme_path = path_join HERE ''README.md''
      in case fs readme_path of
           None \<Rightarrow> Inl (FileNotFoundError
                     (''[Errno 2] No such file or directory: '' @ CHR 0x27 # readme_path @ [CHR 0x27]))
         | Some README \<Rightarrow> Inr (setup_call README))"

text \<open>\<open>build_py.get_package_dir("")\<close> and \<open>find_modules\<close> for top-level modules.\<close>

definition root_package_dir :: "dist_meta \<Rightarrow> path" where
  "root_package_dir d = (case map_of (dist_package_dir d) [] of Some p \<Rightarrow> p | None \<Rightarrow> [])"

definition find_modules :: "fs \<Rightarrow> path \<Rightarrow> dist_meta \<Rightarrow> (string \<times> path) list" where
  "find_modules fs HERE d =
     [(m, path_join (root_package_dir d) (m @ ''.py'')).
        m \<leftarrow> dist_py_modules d,
        fs (path_join HERE (path_join (root_package_dir d) (m @ ''.py''))) \<noteq> None]"

section \<open>Lemmas\<close>

lemma path_join_dir [simp]: "a \<noteq> [] \<Longrightarrow> a \<noteq> ''.'' \<Longrightarrow> path_join a b = a @ CHR ''/'' # b"
  by (simp add: path_join_def)

section \<open>Properties\<close>

text \<open>
  C23 (functional): run beside its README, the script declares the
  distribution \<open>amc-cropper\<close> 0.0.1 with the README as long description,
  and the build installs exactly one file: \<open>amccrop/amccrop.py\<close>, as the
  top-level module \<open>amccrop\<close>.  \<open>amccrop/__main__.py\<close> is not installed, so
  after installation \<open>python -m amccrop\<close> runs the \<open>__main__\<close> block of
  \<open>amccrop.py\<close> (\<open>amccrop_cli\<close>, the same parser and program as \<open>main_module\<close>), and the
  import \<open>from amccrop.amccrop import ...\<close> of \<open>__main__.py\<close> names a
  package that the distribution does not contain.
\<close>

theorem setup_installs_amccrop_only:
  "fs (path_join HERE ''README.md'') = Some README \<Longrightarrow>
   fs (path_join HERE ''amccrop/amccrop.py'') \<noteq> None \<Longrightarrow>
   \<exists>d. setup_py fs HERE = Inr d \<and> dist_name d = ''amc-cropper'' \<and> dist_version d = ''0.0.1'' \<and>
     dist_long_description d = README \<and>
     find_modules fs HERE d = [(''amccrop'', ''amccrop/amccrop.py'')]"
  by (simp add: setup_py_def setup_call_def find_modules_def root_package_dir_def)

theorem setup_installs_amccrop_only_witness:
  "[''README.md'' \<mapsto> ''# AMCCrop'', ''amccrop/amccrop.py'' \<mapsto> ''...'', ''amccrop/__main__.py'' \<mapsto> ''...'']
     (path_join ''.'' ''README.md'') = Some ''# AMCCrop'' \<and>
   [''README.md'' \<mapsto> ''# AMCCrop'', ''amccrop/amccrop.py'' \<mapsto> ''...'', ''amccrop/__main__.py'' \<mapsto> ''...'']
     (path_join ''.'' ''amccrop/amccrop.py'') \<noteq> None \<and>
   (\<exists>d. setup_py [''README.md'' \<mapsto> ''# AMCCrop'', ''amccrop/amccrop.py'' \<mapsto> ''...'',
        ''amccrop/__main__.py'' \<mapsto> ''...''] ''.'' = Inr d \<and>
     dist_name d = ''amc-cropper'' \<and> dist_version d = ''0.0.1'' \<and>
     dist_long_description d = ''# AMCCrop'' \<and>
     find_modules [''README.md'' \<mapsto> ''# AMCCrop'', ''amccrop/amccrop.py'' \<mapsto> ''...'',
        ''amccrop/__main__.py'' \<mapsto> ''...''] ''.'' d = [(''amccrop'', ''amccrop/amccrop.py'')])"
proof -
  let ?fs = "[''README.md'' \<mapsto> ''# AMCCrop'', ''amccrop/amccrop.py'' \<mapsto> ''...'',
     ''amccrop/__main__.py'' \<mapsto> ''...'']"
  have h1: "?fs (path_join ''.'' ''README.md'') = Some ''# AMCCrop''" by (simp add: path_join_def)
  have h2: "?fs (path_join ''.'' ''amccrop/amccrop.py'') \<noteq> None" by (simp add: path_join_def)
  show ?thesis using h1 h2 setup_installs_amccrop_only [OF h1 h2] by blast
qed

text \<open>
  C24 (error): without \<open>README.md\<close> beside the script, packaging fails
  before \<open>setup\<close> is called, with \<open>FileNotFoundError\<close> naming the path.
\<close>

theorem setup_missing_readme:
  "fs (path_join HERE ''README.md'') = None \<Longrightarrow>
   setup_py fs HERE = Inl (FileNotFoundError
     (''[Errno 2] No such file or directory: '' @ CHR 0x27 # path_join HERE ''README.md'' @ [CHR 0x27]))"
  by (simp add: setup_py_def)

theorem setup_missing_readme_witness:
  "[''amccrop/amccrop.py'' \<mapsto> ''...''] (path_join ''src'' ''README.md'') = None \<and>
   setup_py [''amccrop/amccrop.py'' \<mapsto> ''...''] ''src''
     = Inl (FileNotFoundError (''[Errno 2] No such file or directory: '' @ CHR 0x27 # ''src/README.md''
         @ [CHR 0x27]))"
proof -
  have h: "[''amccrop/amccrop.py'' \<mapsto> ''...''] (path_join ''src'' ''README.md'') = None"
    by (simp add: path_join_def)
  show ?thesis
    using h setup_missing_readme [where fs = "[''amccrop/amccrop.py'' \<mapsto> ''...'']" and HERE = "''src''"]
    by simp
qed

end
