(* ===== verification/Spec2Isabelle.thy ===== *)
theory Spec2Isabelle
  imports Args Runs FloatReader Setup
begin

text \<open>
  \<^bold>\<open>A verification model of AMCCrop.\<close>

  AMCCrop crops an Acclaim motion-capture file (\<open>.amc\<close>) to a window of whole
  seconds.  The program (\<open>src/amccrop/amccrop.py\<close>, \<open>src/amccrop/__main__.py\<close>)
  has two internal routines and a short glue:
  \<^item> the validator \<open>CheckArgs(args, amc)\<close> (\<open>amccrop.py\<close> 7--20) rejects equal
    input and output names, an existing output file, a non-positive frame
    rate, and start or end seconds outside \<open>[0, count/30]\<close>, raising
    \<open>ValueError\<close> or \<open>FileExistsError\<close>;
  \<^item> the serializer \<open>parseToAmc(frames)\<close> (\<open>amccrop.py\<close> 22--33) writes the
    AMC text: a two-line header, then per frame a counter line from 1 and
    one tab-separated line per bone;
  \<^item> \<open>SaveAmc\<close> (\<open>amccrop.py\<close> 35--37) writes the text to \<open>output.amc\<close>;
  \<^item> the glue (\<open>__main__.py\<close> 13--27, duplicated in \<open>amccrop.py\<close> 49--63)
    parses the input with the external \<open>ParseAMC\<close>, validates, slices the
    frames \<open>[start*fps : end*fps]\<close>, serializes and saves.

  \<^bold>\<open>Theories.\<close>
  \<^item> \<open>Prelude\<close>: the model's types (\<open>path\<close>, the file system \<open>fs\<close> as a map
    from paths to contents, a frame as an association list from bone names
    to value lists, the parser's \<open>amc_motion\<close> record of frames and count),
    newline and tab, \<open>unlines\<close>, \<open>split_on\<close>/\<open>join_on\<close> (Python's
    \<open>split\<close>/\<open>join\<close>) and their inverse laws, the theorem collections.
  \<^item> \<open>PyRuntime\<close>: the Python built-ins the code calls, from the language
    reference: \<open>str\<close> of an int (\<open>py_str_nat\<close>, \<open>py_str_int\<close>), its inverse
    on decimal strings (\<open>read_nat\<close>, \<open>read_int\<close>), \<open>int(s)\<close> on any string as
    \<open>type=int\<close> calls it (\<open>py_int\<close>: whitespace, sign, underscores), and
    slicing with CPython's index adjustment (\<open>py_slice\<close>).
  \<^item> \<open>Validator\<close>: \<open>cli_args\<close> (the argument dict), \<open>py_exn\<close> (the raised
    exceptions and their messages), \<open>CheckArgs\<close> with its guards in source
    order, and the abstract contract \<open>validate_spec\<close> of the spec's 4.1 with
    an abstraction \<open>verdict_of\<close>; claims C2, C3, C8, C9.
  \<^item> \<open>Serializer\<close>: the three accumulating loops of \<open>parseToAmc\<close>
    (\<open>emit_values\<close>, \<open>emit_bones\<close>, \<open>emit_frames\<close>) and the reference
    document \<open>amc_document\<close> (header and per-frame lines); claims C4, C12.
  \<^item> \<open>AmcReader\<close>: a reader of the serialized text (not in the repository:
    the tool never reads its own output) used to state the round trip, and
    the well-formedness of frames it needs; claim C5.
  \<^item> \<open>Crop\<close>: \<open>SaveAmc\<close>, the frame window \<open>crop_frames\<close>, the entry point
    \<open>crop_main\<close> over an arbitrary parser, and the duplicate entry point
    \<open>amccrop_script\<close>; claims C1, C6, C7, C10, C13.
  \<^item> \<open>Args\<close>: the command line (\<open>__main__.py\<close> 5--13, \<open>amccrop.py\<close> 41--49)
    as Python 3.7's \<open>argparse\<close> parses it for this parser: classification of
    each string (\<open>parse_optional\<close>, \<open>option_tuples\<close>, \<open>neg_number\<close>,
    \<open>classify_args\<close>), consumption (\<open>consume\<close>, \<open>take_action\<close>,
    \<open>store_value\<close>, \<open>help_cluster\<close>), the required check (\<open>parse_args\<close>),
    and the programs on \<open>argv\<close>: \<open>main_module\<close> (\<open>__main__.py\<close> 5--27) and
    \<open>amccrop_cli\<close> (\<open>amccrop.py\<close> 40--63); claims C14--C19.
  \<^item> \<open>Runs\<close>: the inductive relation \<open>crop_runs\<close> of repeated runs on one
    file system, its invariant \<open>tool_files_inv\<close> by rule induction, and
    progress; claims C20, C21.
  \<^item> \<open>PyFloat\<close>: Python's \<open>str\<close> of a float, from its shortest decimal
    digits (the digit generation itself is not modelled) to CPython's
    fixed or exponent notation (\<open>py_float_repr\<close>).
  \<^item> \<open>FloatReader\<close>: a reader of that text (not in the repository) that
    inverts \<open>py_float_repr\<close> on the digit strings \<open>dtoa\<close> produces; the
    serializer's round trip at float values; claim C22.
  \<^item> \<open>Setup\<close>: \<open>setup.py\<close>: the README read, the \<open>setup(...)\<close> metadata
    (\<open>dist_meta\<close>, \<open>setup_call\<close>, \<open>setup_py\<close>) and the files distutils
    installs for \<open>py_modules\<close>/\<open>package_dir\<close> (\<open>find_modules\<close>); claims
    C23, C24.
  \<^item> this theory: the property that spans validator and slice, the
    disagreement of the two rates; claim C11.

  \<^bold>\<open>Correspondence.\<close>  The program state is the file system, threaded
  explicitly: \<open>crop_main ParseAMC str_v args fs\<close> returns the outcome
  (\<open>Inl\<close> of the uncaught exception, or \<open>Inr ()\<close>) and the file system after
  the run; \<open>main_module\<close> first parses \<open>sys.argv[1:]\<close> and stops with
  \<open>Inl\<close> of an \<open>argparse_stop\<close> (help, usage error) or runs \<open>crop_main\<close>.
  \<open>Path(p).is_file()\<close> is \<open>fs p \<noteq> None\<close>; the write replaces the entry
  of \<open>output.amc\<close>.  Python ints are \<open>int\<close>; \<open>amc.count/30\<close> (true
  division, a float) is the rational \<open>count/30\<close> (\<open>seconds_of_count\<close>),
  which agrees with the float comparison for counts below \<open>2^53\<close>.  Frame
  values are of a type parameter with Python's \<open>str\<close> on it as a function
  parameter; the examples use integers (\<open>py_str_int\<close>) and floats
  (\<open>py_float_repr\<close>).  Strings are lists of 8-bit characters read as
  Latin-1.  All loops are structural recursion, except the argparse
  consumption loop, a \<open>function\<close> that consumes one or two strings per
  step, with its termination proved by the length of the remaining list;
  no fuel is needed.

  \<^bold>\<open>What the lemmas show.\<close>  The validator approves exactly the requests
  the spec allows (C2) and refines its five-check contract (C3), rejecting
  same-file first (C8) and existing outputs before value checks (C9).  The
  serializer's loops equal the line-by-line document (C4), which reads back
  to the frames with indices \<open>1..n\<close> (C5), also for float values written
  by \<open>repr\<close> (C22).  The program writes exactly the serialized window
  \<open>[start*fps, end*fps)\<close> on approval (C1), never changes an existing file
  (C6), writes nothing on error (C7), and its window has full length when
  the rate is at most 30 (C10); both entry points agree (C13).  The
  command line of the spec parses back to its record (C14); the last
  occurrence of an option wins (C15); help precedes every later error
  (C16); a bad integer is reported when it is consumed (C17); a value that
  looks like an option is never taken as a value (C18), while an attached
  value is stored as given (C19).  Over any sequence of runs existing
  files are preserved and only \<open>.amc\<close> documents are added (C20), and a
  free output name always exists (C21).  Packaging installs only
  \<open>amccrop.py\<close> (C23) and fails without a README (C24).

  \<^bold>\<open>Findings.\<close>  The bounds check divides by the literal 30 while the
  slice multiplies by the user's rate: above 30 fps an approved request
  can produce a header-only file, exactly when its start frame lies past
  the end (C11), and below 30 fps crops that fit the animation are
  rejected because the bound is \<open>end * 30 \<le> count\<close> (C2).  The comment of
  \<open>CheckArgs\<close> (\<open>amccrop.py\<close> 17) asks for an end "less than total" while
  the code accepts equality (C2, C3).  Bone names are
  written unescaped, so a value-less bone named like the next counter is
  read as an extra frame (C12).  A stem starting with \<open>-\<close> must be attached
  (C18, C19); an attached \<open>--\<close> value becomes a list (C19).
  \<open>__main__.py\<close> is not part of the installed distribution (C23).

  \<^bold>\<open>Not modelled.\<close>  The external \<open>asfamcparser\<close> (a parameter of the
  model); operating-system failures of \<open>open\<close>/\<open>write\<close> and path
  normalisation (paths are compared as strings); the shortest-digit
  generation of float \<open>repr\<close> (\<open>PyFloat\<close> formats given digits);
  \<open>argparse\<close> beyond Python 3.7 (3.12 changed the handling of \<open>--\<close>),
  the printed usage and help texts, characters outside Latin-1 (Unicode
  digits and whitespace), and the run after an option's value became a
  list (\<open>ListValued\<close>) or after the library's own \<open>IndexError\<close> on
  \<open>-h=\<close>; in \<open>setup.py\<close>, what \<open>setuptools\<close> does beyond
  locating the modules (building, metadata files, dependency resolution).

  \<^bold>\<open>Plan.\<close>  A reader-based statement that the written file holds
  exactly \<open>min(end*fps, n) - start*fps\<close> frames; a parser model for the
  external \<open>ParseAMC\<close> interface contract (\<open>count\<close> equal to the number
  of frames) composed with the invariants of \<open>Runs\<close>.
\<close>

section \<open>Properties across components\<close>

text \<open>
  C11 (finding): the validator's literal 30 and the slice's frame rate
  disagree.  For every request \<open>CheckArgs\<close> approves, on a motion whose
  count is its number of frames, the written window is empty exactly
  when the rate exceeds 30 and the start frame \<open>start * fps\<close> lies at or
  past the last frame: approval guarantees a non-empty output only up to
  the nominal rate, and above it the program writes a header-only file.
\<close>

theorem approved_window_empty_iff:
  "CheckArgs fs args amc = Inr True \<Longrightarrow> amc_count amc = int (length (amc_frames amc)) \<Longrightarrow>
   crop_frames args amc = [] \<longleftrightarrow>
     30 < arg_framerate args \<and> int (length (amc_frames amc)) \<le> arg_start args * arg_framerate args"
proof -
  assume ok: "CheckArgs fs args amc = Inr True"
    and cnt: "amc_count amc = int (length (amc_frames amc))"
  note b = CheckArgs_approved_bounds [OF ok]
  have lt: "arg_start args * arg_framerate args < arg_end args * arg_framerate args"
    using b by (simp add: mult_strict_right_mono)
  have "crop_frames args amc =
     map ((!) (amc_frames amc))
       [nat (arg_start args * arg_framerate args)
          ..< min (nat (arg_end args * arg_framerate args)) (length (amc_frames amc))]"
    using b by (intro crop_frames_window) simp_all
  then have "crop_frames args amc = [] \<longleftrightarrow>
      min (nat (arg_end args * arg_framerate args)) (length (amc_frames amc))
        \<le> nat (arg_start args * arg_framerate args)"
    by auto
  also have "\<dots> \<longleftrightarrow> int (length (amc_frames amc)) \<le> arg_start args * arg_framerate args"
  proof -
    have key: "0 \<le> S \<Longrightarrow> S < E \<Longrightarrow> (min (nat E) L \<le> nat S) \<longleftrightarrow> int L \<le> S"
      for S E :: int and L :: nat
      by (cases "nat E \<le> L") (auto simp: min_def le_nat_iff)
    show ?thesis using lt b by (intro key) simp_all
  qed
  finally have empty: "crop_frames args amc = [] \<longleftrightarrow>
      int (length (amc_frames amc)) \<le> arg_start args * arg_framerate args" .
  have hi: "30 < arg_framerate args"
    if past: "int (length (amc_frames amc)) \<le> arg_start args * arg_framerate args"
  proof (rule ccontr)
    assume "\<not> 30 < arg_framerate args"
    then have "arg_start args * arg_framerate args \<le> arg_start args * 30"
      using b by (simp add: mult_left_mono)
    also have "\<dots> < arg_end args * 30" using b by simp
    also have "\<dots> \<le> int (length (amc_frames amc))" using b cnt by simp
    finally show False using past by simp
  qed
  from empty hi show ?thesis by blast
qed

theorem approved_window_empty_iff_witness:
  "CheckArgs Map.empty
     \<lparr>arg_input = ''walk'', arg_output = ''clip'', arg_framerate = 60, arg_start = 20, arg_end = 25\<rparr>
     \<lparr>amc_frames = replicate 900 [(''root'', [0::int])], amc_count = 900\<rparr> = Inr True \<and>
   amc_count \<lparr>amc_frames = replicate 900 [(''root'', [0::int])], amc_count = 900\<rparr>
     = int (length (amc_frames \<lparr>amc_frames = replicate 900 [(''root'', [0::int])], amc_count = 900\<rparr>)) \<and>
   crop_frames
     \<lparr>arg_input = ''walk'', arg_output = ''clip'', arg_framerate = 60, arg_start = 20, arg_end = 25\<rparr>
     \<lparr>amc_frames = replicate 900 [(''root'', [0::int])], amc_count = 900\<rparr> = []"
proof -
  let ?args = "\<lparr>arg_input = ''walk'', arg_output = ''clip'', arg_framerate = 60, arg_start = 20,
      arg_end = 25\<rparr>"
  let ?amc = "\<lparr>amc_frames = replicate 900 [(''root'', [0::int])], amc_count = 900\<rparr>"
  have h1: "CheckArgs Map.empty ?args ?amc = Inr True" by (simp add: CheckArgs_cases)
  have h2: "amc_count ?amc = int (length (amc_frames ?amc))" by simp
  show ?thesis using h1 h2 approved_window_empty_iff [OF h1 h2] by simp
qed

end
